theory Spec2Isabelle
  imports Main "HOL-Library.Sublist"
begin

section \<open>Style extraction from a .docx package (services/docxParser, parseDocxStyles)\<close>

subsection \<open>Texts\<close>

text \<open>
  A JavaScript string is modelled as a \<open>string\<close> holding the UTF-8 bytes of the text.
  The literals of the source that are written in Chinese are given byte by byte; the
  code points are named beside each of them.

  \<open>toLowerCase\<close> is modelled on the letters A to Z. The source only asks whether the
  lowered identifier contains \<open>heading\<close> or \<open>normal\<close>. A code point outside ASCII lowers
  to code points outside ASCII, whose bytes are all above 127, with two exceptions:
  U+212A lowers to \<open>k\<close>, a letter of neither word, and U+0130 lowers to \<open>i\<close> followed by
  U+0307, so that this \<open>i\<close> is never followed by \<open>n\<close>. Hence the two tests of the source
  have the value computed here for every identifier.
\<close>

definition toLowerCase :: "string \<Rightarrow> string" where
  "toLowerCase s =
     map (\<lambda>c. if 65 \<le> (of_char c :: nat) \<and> (of_char c :: nat) \<le> 90
              then char_of ((of_char c :: nat) + 32) else c) s"

definition includes_str :: "string \<Rightarrow> string \<Rightarrow> bool" where
  \<comment> \<open>\<open>s.includes(t)\<close>\<close>
  "includes_str s t = sublist t s"

definition first :: "'a list \<Rightarrow> 'a option" where
  \<comment> \<open>\<open>xs[0]\<close>: the first item, or undefined (here \<open>None\<close>) when there is none\<close>
  "first xs = (case xs of [] \<Rightarrow> None | x # _ \<Rightarrow> Some x)"

definition or_else :: "string option \<Rightarrow> string \<Rightarrow> string" where
  \<comment> \<open>\<open>a || d\<close> for \<open>a\<close> a string or null: null and the empty string are falsy\<close>
  "or_else a d = (case a of None \<Rightarrow> d | Some s \<Rightarrow> if s = [] then d else s)"

definition template :: "string option \<Rightarrow> string" where
  \<comment> \<open>\<open>${a}\<close> for \<open>a\<close> a string or null: null is written as the text null\<close>
  "template a = (case a of None \<Rightarrow> ''null'' | Some s \<Rightarrow> s)"

subsection \<open>Numbers\<close>

text \<open>
  \<open>parseInt\<close> with no radix: leading white space is dropped, then an optional sign, then
  an optional \<open>0x\<close> or \<open>0X\<close> (which selects radix 16), then the longest run of digits of the
  radix is read. No digit gives NaN. The result is kept as the integer read.
\<close>

datatype number = NaN | Integer int

definition WhiteSpace :: "string list" where
  \<comment> \<open>the code points that \<open>parseInt\<close> skips at the start, in UTF-8: TAB, LF, VT, FF, CR,
      SP, U+00A0, U+1680, U+2000 to U+200A, U+2028, U+2029, U+202F, U+205F, U+3000, U+FEFF\<close>
  "WhiteSpace =
     [[CHR 0x09], [CHR 0x0A], [CHR 0x0B], [CHR 0x0C], [CHR 0x0D], [CHR 0x20],
      [CHR 0xC2, CHR 0xA0], [CHR 0xE1, CHR 0x9A, CHR 0x80],
      [CHR 0xE2, CHR 0x80, CHR 0x80], [CHR 0xE2, CHR 0x80, CHR 0x81],
      [CHR 0xE2, CHR 0x80, CHR 0x82], [CHR 0xE2, CHR 0x80, CHR 0x83],
      [CHR 0xE2, CHR 0x80, CHR 0x84], [CHR 0xE2, CHR 0x80, CHR 0x85],
      [CHR 0xE2, CHR 0x80, CHR 0x86], [CHR 0xE2, CHR 0x80, CHR 0x87],
      [CHR 0xE2, CHR 0x80, CHR 0x88], [CHR 0xE2, CHR 0x80, CHR 0x89],
      [CHR 0xE2, CHR 0x80, CHR 0x8A], [CHR 0xE2, CHR 0x80, CHR 0xA8],
      [CHR 0xE2, CHR 0x80, CHR 0xA9], [CHR 0xE2, CHR 0x80, CHR 0xAF],
      [CHR 0xE2, CHR 0x81, CHR 0x9F], [CHR 0xE3, CHR 0x80, CHR 0x80],
      [CHR 0xEF, CHR 0xBB, CHR 0xBF]]"

definition leadingWhiteSpace :: "string \<Rightarrow> nat" where
  \<comment> \<open>the number of bytes of the white space code point the text starts with, or 0\<close>
  "leadingWhiteSpace s =
     (case find (\<lambda>w. prefix w s) WhiteSpace of None \<Rightarrow> 0 | Some w \<Rightarrow> length w)"

function trimStart :: "string \<Rightarrow> string" where
  "trimStart s =
     (if leadingWhiteSpace s = 0 \<or> s = [] then s else trimStart (drop (leadingWhiteSpace s) s))"
  by pat_completeness auto
termination
  by (relation "measure length") auto

declare trimStart.simps [simp del]

definition digitValue :: "char \<Rightarrow> nat option" where
  \<comment> \<open>the value of a digit 0-9, a-z or A-Z\<close>
  "digitValue c =
     (let k = (of_char c :: nat) in
      if 48 \<le> k \<and> k \<le> 57 then Some (k - 48)
      else if 97 \<le> k \<and> k \<le> 122 then Some (k - 87)
      else if 65 \<le> k \<and> k \<le> 90 then Some (k - 55)
      else None)"

definition isRadixDigit :: "nat \<Rightarrow> char \<Rightarrow> bool" where
  "isRadixDigit R c = (case digitValue c of None \<Rightarrow> False | Some v \<Rightarrow> v < R)"

definition mathInt :: "nat \<Rightarrow> string \<Rightarrow> nat" where
  \<comment> \<open>the integer that the digits \<open>Z\<close> write in radix \<open>R\<close>\<close>
  "mathInt R Z = foldl (\<lambda>a c. a * R + (case digitValue c of None \<Rightarrow> 0 | Some v \<Rightarrow> v)) 0 Z"

definition parseInt :: "string \<Rightarrow> number" where
  "parseInt inputString =
     (let S = trimStart inputString;
          sign = (if prefix ''-'' S then - 1 else (1::int));
          S = (if prefix ''+'' S \<or> prefix ''-'' S then drop 1 S else S);
          R = (if prefix ''0x'' S \<or> prefix ''0X'' S then 16 else (10::nat));
          S = (if prefix ''0x'' S \<or> prefix ''0X'' S then drop 2 S else S);
          Z = takeWhile (isRadixDigit R) S
      in if Z = [] then NaN else Integer (sign * int (mathInt R Z)))"

text \<open>
  Writing a number into a template. A number is a double: it holds every integer of
  magnitude below \<open>2^53\<close> exactly, and the half of such an integer too, and writes them in
  plain decimal notation, a half with the fraction \<open>.5\<close>. What the platform writes for an
  integer of greater magnitude (rounded to a double, in exponent notation from \<open>10^21\<close>
  on) is not computed here: it is taken from the platform, see \<open>bigNumber\<close> and
  \<open>bigHalf\<close> below.
\<close>

fun digits :: "nat \<Rightarrow> string" where
  "digits n =
     (if n < 10 then [char_of (48 + n)] else digits (n div 10) @ [char_of (48 + n mod 10)])"

declare digits.simps [simp del]

definition decimal :: "int \<Rightarrow> string" where
  \<comment> \<open>\<open>${n}\<close> for a safe integer \<open>n\<close>\<close>
  "decimal n = (if n < 0 then ''-'' else []) @ digits (nat \<bar>n\<bar>)"

definition decimalHalf :: "int \<Rightarrow> string" where
  \<comment> \<open>\<open>${n/2}\<close> for a safe integer \<open>n\<close>: \<open>/\<close> is the division of doubles, it does not round
      a half away\<close>
  "decimalHalf n =
     (if n < 0 then ''-'' else []) @ digits (nat \<bar>n\<bar> div 2) @ (if odd n then ''.5'' else [])"

definition isSafeInteger :: "int \<Rightarrow> bool" where
  "isSafeInteger n = (\<bar>n\<bar> < 2 ^ 53)"

subsection \<open>The XML tree\<close>

text \<open>
  The tree that the platform's XML parser returns. An element has its qualified name,
  its attributes in order and its children in order. \<open>getElementsByTagName\<close> lists the
  descendants of a node that are elements of the given qualified name, in tree order
  (a parent before its children, children in document order); on the document it lists
  such elements of the whole tree.
\<close>

datatype node = Element string "(string \<times> string) list" "node list" | Text string

fun subtree :: "node \<Rightarrow> node list" where
  "subtree (Element t atts cs) = Element t atts cs # concat (map subtree cs)"
| "subtree (Text s) = [Text s]"

fun childNodes :: "node \<Rightarrow> node list" where
  "childNodes (Element t atts cs) = cs"
| "childNodes (Text s) = []"

fun hasTagName :: "string \<Rightarrow> node \<Rightarrow> bool" where
  "hasTagName q (Element t atts cs) = (q = ''*'' \<or> t = q)"
| "hasTagName q (Text s) = False"

fun getAttribute :: "node \<Rightarrow> string \<Rightarrow> string option" where
  "getAttribute (Element t atts cs) q = map_of atts q"
| "getAttribute (Text s) q = None"

definition getElementsByTagName :: "node \<Rightarrow> string \<Rightarrow> node list" where
  "getElementsByTagName n q = filter (hasTagName q) (concat (map subtree (childNodes n)))"

type_synonym document = "node list"

definition documentElementsByTagName :: "document \<Rightarrow> string \<Rightarrow> node list" where
  \<comment> \<open>\<open>xmlDoc.getElementsByTagName(q)\<close>; a document is the list of its children\<close>
  "documentElementsByTagName d q = filter (hasTagName q) (concat (map subtree d))"

subsection \<open>The platform\<close>

text \<open>
  The source calls two libraries. \<open>JSZip.loadAsync(file)\<close> is rejected with an error
  when the bytes are not a ZIP container, and otherwise gives the archive; an archive
  is a dictionary from the path of each file entry to the entry, here to the outcome of
  reading the entry as text, which is an error when the entry's data is damaged. (A
  directory entry is stored under a path that ends in a slash, so \<open>zip.file\<close> with a
  path that does not end in one finds file entries only.) The source does nothing else
  with the file, so the model takes the file as the outcome of \<open>loadAsync\<close> on it.

  \<open>new DOMParser().parseFromString(text, "text/xml")\<close> never throws: for a text that is
  not well-formed it returns a document that holds a \<open>parsererror\<close> element. The parser
  is a parameter of the model, with the two texts the platform writes for an integer
  outside the safe range.
\<close>

datatype error = Error string

type_synonym zip = "string \<rightharpoonup> (error + string)"

type_synonym docx_file = "error + zip"

record platform =
  parseFromString :: "string \<Rightarrow> document"
  bigNumber :: "int \<Rightarrow> string"
  bigHalf :: "int \<Rightarrow> string"

definition zip_file :: "zip \<Rightarrow> string \<Rightarrow> (error + string) option" where
  \<comment> \<open>\<open>zip.file(path)\<close>: the entry stored under exactly this path, or null\<close>
  "zip_file z path = z path"

definition numberText :: "platform \<Rightarrow> number \<Rightarrow> string" where
  \<comment> \<open>\<open>${val}\<close>\<close>
  "numberText P val =
     (case val of NaN \<Rightarrow> ''NaN''
      | Integer n \<Rightarrow> if isSafeInteger n then decimal n else bigNumber P n)"

definition halfText :: "platform \<Rightarrow> number \<Rightarrow> string" where
  \<comment> \<open>\<open>${val/2}\<close>\<close>
  "halfText P val =
     (case val of NaN \<Rightarrow> ''NaN''
      | Integer n \<Rightarrow> if isSafeInteger n then decimalHalf n else bigHalf P n)"

subsection \<open>The fixed texts of the source\<close>

definition quote :: string where
  "quote = [CHR 0x22]"

definition not_found_message :: string where
  \<comment> \<open>U+65E0 U+6CD5 U+8BFB U+53D6 U+6587 U+6863 U+6837 U+5F0F U+5B9A U+4E49, then
      \<open> (word/styles.xml \<close>, U+4E0D U+5B58 U+5728, \<open>)\<close>: the styles part does not exist\<close>
  "not_found_message =
     [CHR 0xE6, CHR 0x97, CHR 0xA0] @ [CHR 0xE6, CHR 0xB3, CHR 0x95] @
     [CHR 0xE8, CHR 0xAF, CHR 0xBB] @ [CHR 0xE5, CHR 0x8F, CHR 0x96] @
     [CHR 0xE6, CHR 0x96, CHR 0x87] @ [CHR 0xE6, CHR 0xA1, CHR 0xA3] @
     [CHR 0xE6, CHR 0xA0, CHR 0xB7] @ [CHR 0xE5, CHR 0xBC, CHR 0x8F] @
     [CHR 0xE5, CHR 0xAE, CHR 0x9A] @ [CHR 0xE4, CHR 0xB9, CHR 0x89] @
     '' (word/styles.xml '' @
     [CHR 0xE4, CHR 0xB8, CHR 0x8D] @ [CHR 0xE5, CHR 0xAD, CHR 0x98] @
     [CHR 0xE5, CHR 0x9C, CHR 0xA8] @ '')''"

definition parse_failure_message :: string where
  \<comment> \<open>U+65E0 U+6CD5 U+89E3 U+6790, \<open> .docx \<close>, U+5185 U+90E8, \<open> XML \<close>, U+7ED3 U+6784 U+FF0C
      U+4EC5 U+57FA U+4E8E U+6587 U+672C U+5185 U+5BB9 U+5206 U+6790 U+3002: the XML
      inside the .docx cannot be parsed\<close>
  "parse_failure_message =
     [CHR 0xE6, CHR 0x97, CHR 0xA0] @ [CHR 0xE6, CHR 0xB3, CHR 0x95] @
     [CHR 0xE8, CHR 0xA7, CHR 0xA3] @ [CHR 0xE6, CHR 0x9E, CHR 0x90] @ '' .docx '' @
     [CHR 0xE5, CHR 0x86, CHR 0x85] @ [CHR 0xE9, CHR 0x83, CHR 0xA8] @ '' XML '' @
     [CHR 0xE7, CHR 0xBB, CHR 0x93] @ [CHR 0xE6, CHR 0x9E, CHR 0x84] @
     [CHR 0xEF, CHR 0xBC, CHR 0x8C] @ [CHR 0xE4, CHR 0xBB, CHR 0x85] @
     [CHR 0xE5, CHR 0x9F, CHR 0xBA] @ [CHR 0xE4, CHR 0xBA, CHR 0x8E] @
     [CHR 0xE6, CHR 0x96, CHR 0x87] @ [CHR 0xE6, CHR 0x9C, CHR 0xAC] @
     [CHR 0xE5, CHR 0x86, CHR 0x85] @ [CHR 0xE5, CHR 0xAE, CHR 0xB9] @
     [CHR 0xE5, CHR 0x88, CHR 0x86] @ [CHR 0xE6, CHR 0x9E, CHR 0x90] @
     [CHR 0xE3, CHR 0x80, CHR 0x82]"

definition report_header :: string where
  \<comment> \<open>U+3010 U+6587 U+6863 U+5185 U+90E8 U+6837 U+5F0F U+5B9A U+4E49 U+5206 U+6790, \<open> (\<close>,
      U+57FA U+4E8E, \<open> word/styles.xml)\<close>, U+3011, a colon and a line feed\<close>
  "report_header =
     [CHR 0xE3, CHR 0x80, CHR 0x90] @ [CHR 0xE6, CHR 0x96, CHR 0x87] @
     [CHR 0xE6, CHR 0xA1, CHR 0xA3] @ [CHR 0xE5, CHR 0x86, CHR 0x85] @
     [CHR 0xE9, CHR 0x83, CHR 0xA8] @ [CHR 0xE6, CHR 0xA0, CHR 0xB7] @
     [CHR 0xE5, CHR 0xBC, CHR 0x8F] @ [CHR 0xE5, CHR 0xAE, CHR 0x9A] @
     [CHR 0xE4, CHR 0xB9, CHR 0x89] @ [CHR 0xE5, CHR 0x88, CHR 0x86] @
     [CHR 0xE6, CHR 0x9E, CHR 0x90] @ '' ('' @
     [CHR 0xE5, CHR 0x9F, CHR 0xBA] @ [CHR 0xE4, CHR 0xBA, CHR 0x8E] @
     '' word/styles.xml)'' @ [CHR 0xE3, CHR 0x80, CHR 0x91] @ '':'' @ [CHR 0x0A]"

definition style_label :: string where
  \<comment> \<open>a line feed, \<open>[\<close>, U+6837 U+5F0F U+540D U+79F0 (style name), a colon and a space\<close>
  "style_label =
     [CHR 0x0A] @ ''['' @ [CHR 0xE6, CHR 0xA0, CHR 0xB7] @ [CHR 0xE5, CHR 0xBC, CHR 0x8F] @
     [CHR 0xE5, CHR 0x90, CHR 0x8D] @ [CHR 0xE7, CHR 0xA7, CHR 0xB0] @ '': ''"

definition font_label :: string where
  \<comment> \<open>a line feed, \<open>  - \<close>, U+5B57 U+4F53 (font), \<open>: \<close>, U+897F U+6587 (Latin script), \<open>="\<close>\<close>
  "font_label =
     [CHR 0x0A] @ ''  - '' @ [CHR 0xE5, CHR 0xAD, CHR 0x97] @ [CHR 0xE4, CHR 0xBD, CHR 0x93] @
     '': '' @ [CHR 0xE8, CHR 0xA5, CHR 0xBF] @ [CHR 0xE6, CHR 0x96, CHR 0x87] @ ''='' @ quote"

definition eastAsia_label :: string where
  \<comment> \<open>\<open>", \<close>, U+4E2D U+6587 (Chinese), \<open>="\<close>\<close>
  "eastAsia_label =
     quote @ '', '' @ [CHR 0xE4, CHR 0xB8, CHR 0xAD] @ [CHR 0xE6, CHR 0x96, CHR 0x87] @
     ''='' @ quote"

definition default_label :: string where
  \<comment> \<open>U+9ED8 U+8BA4 (default)\<close>
  "default_label = [CHR 0xE9, CHR 0xBB, CHR 0x98] @ [CHR 0xE8, CHR 0xAE, CHR 0xA4]"

definition size_label :: string where
  \<comment> \<open>a line feed, \<open>  - \<close>, U+5B57 U+53F7 (font size), \<open>: \<close>\<close>
  "size_label =
     [CHR 0x0A] @ ''  - '' @ [CHR 0xE5, CHR 0xAD, CHR 0x97] @ [CHR 0xE5, CHR 0x8F, CHR 0xB7] @
     '': ''"

definition that_is :: string where
  \<comment> \<open>\<open> (\<close>, U+5373 (that is), a space\<close>
  "that_is = '' ('' @ [CHR 0xE5, CHR 0x8D, CHR 0xB3] @ '' ''"

definition bold_line :: string where
  \<comment> \<open>a line feed, \<open>  - \<close>, U+52A0 U+7C97 (bold), \<open>: \<close>, U+662F (yes)\<close>
  "bold_line =
     [CHR 0x0A] @ ''  - '' @ [CHR 0xE5, CHR 0x8A, CHR 0xA0] @ [CHR 0xE7, CHR 0xB2, CHR 0x97] @
     '': '' @ [CHR 0xE6, CHR 0x98, CHR 0xAF]"

definition spacing_label :: string where
  \<comment> \<open>a line feed, \<open>  - \<close>, U+884C U+8DDD (line spacing), \<open>: \<close>\<close>
  "spacing_label =
     [CHR 0x0A] @ ''  - '' @ [CHR 0xE8, CHR 0xA1, CHR 0x8C] @ [CHR 0xE8, CHR 0xB7, CHR 0x9D] @
     '': ''"

definition rule_label :: string where
  \<comment> \<open>\<open> (\<close>, U+89C4 U+5219 (rule), \<open>: \<close>\<close>
  "rule_label = '' ('' @ [CHR 0xE8, CHR 0xA7, CHR 0x84] @ [CHR 0xE5, CHR 0x88, CHR 0x99] @ '': ''"

definition jc_label :: string where
  \<comment> \<open>a line feed, \<open>  - \<close>, U+5BF9 U+9F50 (alignment), \<open>: \<close>\<close>
  "jc_label =
     [CHR 0x0A] @ ''  - '' @ [CHR 0xE5, CHR 0xAF, CHR 0xB9] @ [CHR 0xE9, CHR 0xBD, CHR 0x90] @
     '': ''"

subsection \<open>parseDocxStyles\<close>

text \<open>
  The report under construction is kept as the list of the pieces appended to it so
  far, \<open>report += piece\<close> being \<open>report @ [piece]\<close>; the text returned is their
  concatenation. This keeps the lines of the report apart from the attribute values
  written into them.
\<close>

definition isHeading :: "string option \<Rightarrow> bool" where
  \<comment> \<open>\<open>styleId?.toLowerCase().includes("heading")\<close>, undefined (falsy) for a null identifier\<close>
  "isHeading styleId =
     (case styleId of None \<Rightarrow> False | Some s \<Rightarrow> includes_str (toLowerCase s) ''heading'')"

definition isNormal :: "string option \<Rightarrow> string option \<Rightarrow> bool" where
  \<comment> \<open>\<open>styleId?.toLowerCase().includes("normal") || name === "Normal"\<close>\<close>
  "isNormal styleId name =
     ((case styleId of None \<Rightarrow> False | Some s \<Rightarrow> includes_str (toLowerCase s) ''normal'')
      \<or> name = Some ''Normal'')"

definition styleName :: "node \<Rightarrow> string option" where
  \<comment> \<open>\<open>nameNode ? nameNode.getAttribute("w:val") : styleId\<close>\<close>
  "styleName style =
     (case first (getElementsByTagName style ''w:name'') of
        Some nameNode \<Rightarrow> getAttribute nameNode ''w:val''
      | None \<Rightarrow> getAttribute style ''w:styleId'')"

definition rPr_lines :: "platform \<Rightarrow> node \<Rightarrow> string list \<Rightarrow> string list" where
  \<comment> \<open>the body of \<open>if (rPr)\<close>: font names, size, bold\<close>
  "rPr_lines P rPr report =
     (let report =
            (case first (getElementsByTagName rPr ''w:rFonts'') of
               None \<Rightarrow> report
             | Some rFonts \<Rightarrow>
                 (let ascii = getAttribute rFonts ''w:ascii'';
                      eastAsia = getAttribute rFonts ''w:eastAsia''
                  in report @ [font_label @ or_else ascii default_label @ eastAsia_label @
                                or_else eastAsia default_label @ quote]));
          report =
            (case first (getElementsByTagName rPr ''w:sz'') of
               None \<Rightarrow> report
             | Some sz \<Rightarrow>
                 (let val = parseInt (or_else (getAttribute sz ''w:val'') ''0'')
                  in report @ [size_label @ numberText P val @ that_is @ halfText P val @
                                ''pt)'']))
      in (case first (getElementsByTagName rPr ''w:b'') of
            None \<Rightarrow> report
          | Some b \<Rightarrow>
              if getAttribute b ''w:val'' \<noteq> Some ''0'' then report @ [bold_line] else report))"

definition pPr_lines :: "node \<Rightarrow> string list \<Rightarrow> string list" where
  \<comment> \<open>the body of \<open>if (pPr)\<close>: line spacing, alignment\<close>
  "pPr_lines pPr report =
     (let report =
            (case first (getElementsByTagName pPr ''w:spacing'') of
               None \<Rightarrow> report
             | Some spacing \<Rightarrow>
                 (let line = getAttribute spacing ''w:line'';
                      lineRule = getAttribute spacing ''w:lineRule''
                  in report @ [spacing_label @ template line @ rule_label @
                                template lineRule @ '')'']))
      in (case first (getElementsByTagName pPr ''w:jc'') of
            None \<Rightarrow> report
          | Some jc \<Rightarrow> report @ [jc_label @ template (getAttribute jc ''w:val'')]))"

definition loop_body :: "platform \<Rightarrow> node \<Rightarrow> string list \<Rightarrow> string list" where
  \<comment> \<open>one round of the loop over the style elements\<close>
  "loop_body P style report =
     (let styleId = getAttribute style ''w:styleId'';
          name = styleName style
      in if isHeading styleId \<or> isNormal styleId name then
           (let report = report @ [style_label @ template name @ '' (ID: '' @
                                    template styleId @ '')]''];
                report =
                  (case first (getElementsByTagName style ''w:rPr'') of
                     None \<Rightarrow> report
                   | Some rPr \<Rightarrow> rPr_lines P rPr report)
            in (case first (getElementsByTagName style ''w:pPr'') of
                  None \<Rightarrow> report
                | Some pPr \<Rightarrow> pPr_lines pPr report))
         else report)"

fun for_styles :: "platform \<Rightarrow> node list \<Rightarrow> string list \<Rightarrow> string list" where
  \<comment> \<open>\<open>for (let i = 0; i < styles.length; i++)\<close>\<close>
  "for_styles P [] report = report"
| "for_styles P (style # rest) report = for_styles P rest (loop_body P style report)"

definition read_styles :: "zip \<Rightarrow> error + string option" where
  \<comment> \<open>\<open>await zip.file("word/styles.xml")?.async("text")\<close>: undefined when there is no such
      entry, an error when the entry cannot be read\<close>
  "read_styles z =
     (case zip_file z ''word/styles.xml'' of
        None \<Rightarrow> Inr None
      | Some entry \<Rightarrow> (case entry of Inl e \<Rightarrow> Inl e | Inr t \<Rightarrow> Inr (Some t)))"

definition try_block :: "platform \<Rightarrow> docx_file \<Rightarrow> error + string" where
  \<comment> \<open>the body of \<open>try\<close>; \<open>Inl\<close> is an exception thrown in it\<close>
  "try_block P file =
     (case file of
        Inl e \<Rightarrow> Inl e
      | Inr z \<Rightarrow>
          (case read_styles z of
             Inl e \<Rightarrow> Inl e
           | Inr stylesXml \<Rightarrow>
               if stylesXml = None \<or> stylesXml = Some [] then Inr not_found_message
               else
                 (let xmlDoc = parseFromString P (the stylesXml);
                      styles = documentElementsByTagName xmlDoc ''w:style''
                  in Inr (concat (for_styles P styles [report_header])))))"

definition parseDocxStyles :: "platform \<Rightarrow> docx_file \<Rightarrow> string" where
  \<comment> \<open>\<open>catch (e)\<close> logs the error and returns the second fixed message\<close>
  "parseDocxStyles P file =
     (case try_block P file of Inl e \<Rightarrow> parse_failure_message | Inr report \<Rightarrow> report)"

definition included :: "node \<Rightarrow> bool" where
  \<comment> \<open>the condition \<open>isHeading || isNormal\<close> of the loop, for a style element\<close>
  "included style =
     (isHeading (getAttribute style ''w:styleId'') \<or>
      isNormal (getAttribute style ''w:styleId'') (styleName style))"

definition style_line :: "node \<Rightarrow> string" where
  \<comment> \<open>the first piece of a style's block: display name and identifier\<close>
  "style_line style =
     style_label @ template (styleName style) @ '' (ID: '' @
     template (getAttribute style ''w:styleId'') @ '')]''"

definition style_block :: "platform \<Rightarrow> node \<Rightarrow> string list" where
  \<comment> \<open>the pieces that one round of the loop appends\<close>
  "style_block P style = loop_body P style []"

subsection \<open>The package behind the file\<close>

text \<open>
  What \<open>loadAsync\<close> makes of a ZIP container. JSZip reads the entries in the order of the
  central directory and files each of them in its dictionary under the entry's name as
  \<open>utils.resolve\<close> rewrites it: the name is split at the slashes; a segment \<open>.\<close> is
  dropped; an empty segment is dropped unless it is the first or the last one; a
  segment \<open>..\<close> removes the segment kept before it; the segments kept are joined with
  slashes again. An entry filed later replaces one filed earlier under the same name.
  A package is given by its file entries, each with its name as the archive has it and
  the outcome of reading it as text. Directory entries are left out: they are filed
  under names that end in a slash, where no path without one finds them.
\<close>

fun split_at :: "char \<Rightarrow> string \<Rightarrow> string list" where
  \<comment> \<open>\<open>path.split("/")\<close>\<close>
  "split_at c [] = [[]]"
| "split_at c (x # xs) =
     (if x = c then [] # split_at c xs
      else (case split_at c xs of [] \<Rightarrow> [[x]] | p # ps \<Rightarrow> (x # p) # ps))"

fun join_with :: "string \<Rightarrow> string list \<Rightarrow> string" where
  \<comment> \<open>\<open>result.join("/")\<close>\<close>
  "join_with sep [] = []"
| "join_with sep [p] = p"
| "join_with sep (p # q # ps) = p @ sep @ join_with sep (q # ps)"

fun resolve_parts :: "nat \<Rightarrow> nat \<Rightarrow> string list \<Rightarrow> string list \<Rightarrow> string list" where
  \<comment> \<open>the loop of \<open>utils.resolve\<close> from index \<open>i\<close> on, over \<open>n\<close> segments in all\<close>
  "resolve_parts i n [] result = result"
| "resolve_parts i n (part # parts) result =
     resolve_parts (i + 1) n parts
       (if part = ''.'' \<or> (part = [] \<and> i \<noteq> 0 \<and> i \<noteq> n - 1) then result
        else if part = ''..'' then butlast result
        else result @ [part])"

definition resolve :: "string \<Rightarrow> string" where
  "resolve path =
     (let parts = split_at (CHR ''/'') path
      in join_with ''/'' (resolve_parts 0 (length parts) parts []))"

datatype package = NotZip error | Zip "(string \<times> (error + string)) list"

fun loadAsync :: "package \<Rightarrow> docx_file" where
  "loadAsync (NotZip e) = Inl e"
| "loadAsync (Zip entries) =
     Inr (fold (\<lambda>entry z. z(resolve (fst entry) \<mapsto> snd entry)) entries Map.empty)"

subsection \<open>The relevance filter in the words of the specification\<close>

text \<open>
  A text contains another one case-insensitively when it does so after both are
  lowered. A style is relevant when its identifier case-insensitively contains
  \<open>heading\<close> or \<open>normal\<close>, or its display name is exactly \<open>Normal\<close>; a style with no
  identifier attribute has no identifier that contains anything.
\<close>

definition contains_caseless :: "string \<Rightarrow> string \<Rightarrow> bool" where
  "contains_caseless s t = sublist (toLowerCase t) (toLowerCase s)"

definition relevant :: "node \<Rightarrow> bool" where
  "relevant style =
     ((case getAttribute style ''w:styleId'' of
         None \<Rightarrow> False
       | Some ident \<Rightarrow>
           contains_caseless ident ''heading'' \<or> contains_caseless ident ''normal'')
      \<or> styleName style = Some ''Normal'')"

subsection \<open>A block in the words of the specification\<close>

text \<open>
  The block of a style is its header line, then, when the style has run properties,
  the font line (when there is a fonts element), the size line (when there is a size
  element) and the bold line (when there is a bold element whose value is not \<open>0\<close>),
  then, when the style has paragraph properties, the spacing line (when there is a
  spacing element) and the alignment line (when there is a justification element). A
  line that is not written is the empty text. The report is the header followed by the
  blocks of the relevant styles.
\<close>

definition font_line :: "node \<Rightarrow> string" where
  "font_line rPr =
     (case first (getElementsByTagName rPr ''w:rFonts'') of
        None \<Rightarrow> []
      | Some rFonts \<Rightarrow>
          font_label @ or_else (getAttribute rFonts ''w:ascii'') default_label @
          eastAsia_label @ or_else (getAttribute rFonts ''w:eastAsia'') default_label @ quote)"

definition size_line :: "platform \<Rightarrow> node \<Rightarrow> string" where
  "size_line P rPr =
     (case first (getElementsByTagName rPr ''w:sz'') of
        None \<Rightarrow> []
      | Some sz \<Rightarrow>
          size_label @ numberText P (parseInt (or_else (getAttribute sz ''w:val'') ''0'')) @
          that_is @ halfText P (parseInt (or_else (getAttribute sz ''w:val'') ''0'')) @
          ''pt)'')"

definition bold_text :: "node \<Rightarrow> string" where
  "bold_text rPr =
     (case first (getElementsByTagName rPr ''w:b'') of
        None \<Rightarrow> []
      | Some b \<Rightarrow> if getAttribute b ''w:val'' = Some ''0'' then [] else bold_line)"

definition spacing_line :: "node \<Rightarrow> string" where
  "spacing_line pPr =
     (case first (getElementsByTagName pPr ''w:spacing'') of
        None \<Rightarrow> []
      | Some spacing \<Rightarrow>
          spacing_label @ template (getAttribute spacing ''w:line'') @ rule_label @
          template (getAttribute spacing ''w:lineRule'') @ '')'')"

definition jc_line :: "node \<Rightarrow> string" where
  "jc_line pPr =
     (case first (getElementsByTagName pPr ''w:jc'') of
        None \<Rightarrow> []
      | Some jc \<Rightarrow> jc_label @ template (getAttribute jc ''w:val''))"

definition run_text :: "platform \<Rightarrow> node \<Rightarrow> string" where
  "run_text P style =
     (case first (getElementsByTagName style ''w:rPr'') of
        None \<Rightarrow> []
      | Some rPr \<Rightarrow> font_line rPr @ size_line P rPr @ bold_text rPr)"

definition paragraph_text :: "node \<Rightarrow> string" where
  "paragraph_text style =
     (case first (getElementsByTagName style ''w:pPr'') of
        None \<Rightarrow> []
      | Some pPr \<Rightarrow> spacing_line pPr @ jc_line pPr)"

definition described_block :: "platform \<Rightarrow> node \<Rightarrow> string" where
  "described_block P style = style_line style @ run_text P style @ paragraph_text style"

definition described_blocks :: "platform \<Rightarrow> node list \<Rightarrow> string" where
  "described_blocks P styles =
     concat (map (\<lambda>style. if relevant style then described_block P style else []) styles)"

definition block_lines :: "platform \<Rightarrow> node \<Rightarrow> string list" where
  \<comment> \<open>the lines of a block one by one; the block is their concatenation\<close>
  "block_lines P style =
     style_line style #
     (case first (getElementsByTagName style ''w:rPr'') of
        None \<Rightarrow> []
      | Some rPr \<Rightarrow> [font_line rPr, size_line P rPr, bold_text rPr]) @
     (case first (getElementsByTagName style ''w:pPr'') of
        None \<Rightarrow> []
      | Some pPr \<Rightarrow> [spacing_line pPr, jc_line pPr])"

subsection \<open>Sample inputs\<close>

text \<open>
  Style elements as they stand in the styles part of a document, two styles parts with
  the tree each of them parses to, and the packages that hold them. The sample platform
  parses the two texts to their trees and returns a \<open>parsererror\<close> document for any
  other text, as the parser does for a text that is not well-formed (among them
  \<open>truncated_styles_xml\<close>, cut off inside its first tag). No sample has a font size
  outside the safe range, so the sample platform's texts for such sizes are never read.
\<close>

definition spacing_360_auto :: node where
  "spacing_360_auto =
     Element ''w:spacing'' [(''w:line'', ''360''), (''w:lineRule'', ''auto'')] []"

definition jc_center :: node where
  "jc_center = Element ''w:jc'' [(''w:val'', ''center'')] []"

definition bold_on :: node where
  "bold_on = Element ''w:b'' [] []"

definition bold_off :: node where
  "bold_off = Element ''w:b'' [(''w:val'', ''0'')] []"

definition sz_21 :: node where
  "sz_21 = Element ''w:sz'' [(''w:val'', ''21'')] []"

definition sz_24 :: node where
  "sz_24 = Element ''w:sz'' [(''w:val'', ''24'')] []"

definition rPr_Normal :: node where
  "rPr_Normal =
     Element ''w:rPr'' []
       [Element ''w:rFonts'' [(''w:ascii'', ''Times New Roman''), (''w:eastAsia'', ''SimSun'')] [],
        sz_21]"

definition rPr_Heading1 :: node where
  "rPr_Heading1 =
     Element ''w:rPr'' []
       [Element ''w:rFonts'' [(''w:ascii'', ''Times New Roman''), (''w:eastAsia'', ''SimSun'')] [],
        bold_on,
        sz_24]"

definition rPr_Heading2 :: node where
  "rPr_Heading2 = Element ''w:rPr'' [] [bold_off, sz_24]"

definition pPr_Heading1 :: node where
  "pPr_Heading1 = Element ''w:pPr'' [] [spacing_360_auto, jc_center]"

definition style_Normal :: node where
  "style_Normal =
     Element ''w:style'' [(''w:type'', ''paragraph''), (''w:styleId'', ''Normal'')]
       [Element ''w:name'' [(''w:val'', ''Normal'')] [],
        Element ''w:pPr'' [] [spacing_360_auto, Element ''w:jc'' [(''w:val'', ''both'')] []],
        rPr_Normal]"

definition style_Heading1 :: node where
  "style_Heading1 =
     Element ''w:style'' [(''w:type'', ''paragraph''), (''w:styleId'', ''Heading1'')]
       [Element ''w:name'' [(''w:val'', ''heading 1'')] [],
        pPr_Heading1,
        rPr_Heading1]"

definition style_Heading2 :: node where
  "style_Heading2 =
     Element ''w:style'' [(''w:type'', ''paragraph''), (''w:styleId'', ''Heading2'')]
       [Element ''w:name'' [(''w:val'', ''heading 2'')] [],
        rPr_Heading2]"

definition style_Caption :: node where
  "style_Caption =
     Element ''w:style'' [(''w:type'', ''paragraph''), (''w:styleId'', ''Caption'')]
       [Element ''w:name'' [(''w:val'', ''caption'')] [],
        Element ''w:pPr'' [] [jc_center],
        Element ''w:rPr'' [] [bold_on, Element ''w:sz'' [(''w:val'', ''20'')] []]]"

definition style_Heading3 :: node where
  "style_Heading3 =
     Element ''w:style'' [(''w:type'', ''paragraph''), (''w:styleId'', ''Heading3'')]
       [Element ''w:rPr'' [] [sz_24]]"

definition style_Title :: node where
  "style_Title =
     Element ''w:style'' [(''w:type'', ''paragraph''), (''w:styleId'', ''Title'')]
       [Element ''w:name'' [(''w:val'', ''Title'')] [],
        Element ''w:rPr'' [] [bold_on, Element ''w:sz'' [(''w:val'', ''32'')] []]]"

definition thesis_styles_xml :: string where
  "thesis_styles_xml =
     ''<w:styles xmlns:w='' @ quote @
     ''http://schemas.openxmlformats.org/wordprocessingml/2006/main'' @ quote @
     ''><w:style w:type='' @ quote @ ''paragraph'' @ quote @ '' w:styleId='' @ quote @
     ''Normal'' @ quote @ ''><w:name w:val='' @ quote @ ''Normal'' @ quote @
     ''/><w:pPr><w:spacing w:line='' @ quote @ ''360'' @ quote @ '' w:lineRule='' @ quote @
     ''auto'' @ quote @ ''/><w:jc w:val='' @ quote @ ''both'' @ quote @
     ''/></w:pPr><w:rPr><w:rFonts w:ascii='' @ quote @ ''Times New Roman'' @ quote @
     '' w:eastAsia='' @ quote @ ''SimSun'' @ quote @ ''/><w:sz w:val='' @ quote @ ''21'' @
     quote @ ''/></w:rPr></w:style><w:style w:type='' @ quote @ ''paragraph'' @ quote @
     '' w:styleId='' @ quote @ ''Heading1'' @ quote @ ''><w:name w:val='' @ quote @
     ''heading 1'' @ quote @ ''/><w:pPr><w:spacing w:line='' @ quote @ ''360'' @ quote @
     '' w:lineRule='' @ quote @ ''auto'' @ quote @ ''/><w:jc w:val='' @ quote @ ''center'' @
     quote @ ''/></w:pPr><w:rPr><w:rFonts w:ascii='' @ quote @ ''Times New Roman'' @ quote @
     '' w:eastAsia='' @ quote @ ''SimSun'' @ quote @ ''/><w:b/><w:sz w:val='' @ quote @
     ''24'' @ quote @ ''/></w:rPr></w:style><w:style w:type='' @ quote @ ''paragraph'' @
     quote @ '' w:styleId='' @ quote @ ''Caption'' @ quote @ ''><w:name w:val='' @ quote @
     ''caption'' @ quote @ ''/><w:pPr><w:jc w:val='' @ quote @ ''center'' @ quote @
     ''/></w:pPr><w:rPr><w:b/><w:sz w:val='' @ quote @ ''20'' @ quote @
     ''/></w:rPr></w:style></w:styles>''"

definition thesis_document :: document where
  "thesis_document =
     [Element ''w:styles''
       [(''xmlns:w'', ''http://schemas.openxmlformats.org/wordprocessingml/2006/main'')]
       [style_Normal, style_Heading1, style_Caption]]"

definition letter_styles_xml :: string where
  "letter_styles_xml =
     ''<w:styles xmlns:w='' @ quote @
     ''http://schemas.openxmlformats.org/wordprocessingml/2006/main'' @ quote @
     ''><w:style w:type='' @ quote @ ''paragraph'' @ quote @ '' w:styleId='' @ quote @
     ''Caption'' @ quote @ ''><w:name w:val='' @ quote @ ''caption'' @ quote @
     ''/><w:pPr><w:jc w:val='' @ quote @ ''center'' @ quote @
     ''/></w:pPr><w:rPr><w:b/><w:sz w:val='' @ quote @ ''20'' @ quote @
     ''/></w:rPr></w:style><w:style w:type='' @ quote @ ''paragraph'' @ quote @
     '' w:styleId='' @ quote @ ''Title'' @ quote @ ''><w:name w:val='' @ quote @ ''Title'' @
     quote @ ''/><w:rPr><w:b/><w:sz w:val='' @ quote @ ''32'' @ quote @
     ''/></w:rPr></w:style></w:styles>''"

definition letter_document :: document where
  "letter_document =
     [Element ''w:styles''
       [(''xmlns:w'', ''http://schemas.openxmlformats.org/wordprocessingml/2006/main'')]
       [style_Caption, style_Title]]"

definition truncated_styles_xml :: string where
  \<comment> \<open>the thesis's styles part cut off inside its first tag\<close>
  "truncated_styles_xml =
     ''<w:styles xmlns:w='' @ quote @ ''http://schemas.openxmlformats.org/wordprocess''"

definition parsererror_document :: document where
  "parsererror_document = [Element ''parsererror'' [] [Text ''XML Parsing Error'']]"

definition sample_platform :: platform where
  "sample_platform =
     \<lparr>parseFromString =
        (\<lambda>t. if t = thesis_styles_xml then thesis_document
             else if t = letter_styles_xml then letter_document
             else parsererror_document),
      bigNumber = (\<lambda>n. ''?''),
      bigHalf = (\<lambda>n. ''?'')\<rparr>"

definition thesis_docx :: docx_file where
  "thesis_docx =
     Inr [''word/document.xml'' \<mapsto> Inr ''<w:document/>'',
          ''word/styles.xml'' \<mapsto> Inr thesis_styles_xml]"

definition letter_docx :: docx_file where
  "letter_docx =
     Inr [''word/document.xml'' \<mapsto> Inr ''<w:document/>'',
          ''word/styles.xml'' \<mapsto> Inr letter_styles_xml]"

definition no_styles_docx :: docx_file where
  \<comment> \<open>a package with no entry at \<open>word/styles.xml\<close>; a path that differs in case is
      another path\<close>
  "no_styles_docx =
     Inr [''word/document.xml'' \<mapsto> Inr ''<w:document/>'',
          ''word/Styles.xml'' \<mapsto> Inr thesis_styles_xml]"

definition truncated_docx :: docx_file where
  "truncated_docx = Inr [''word/styles.xml'' \<mapsto> Inr truncated_styles_xml]"

definition empty_styles_docx :: docx_file where
  \<comment> \<open>the entry is there and is read, but holds no text\<close>
  "empty_styles_docx = Inr [''word/styles.xml'' \<mapsto> Inr []]"

definition not_a_zip :: docx_file where
  "not_a_zip = Inl (Error ''not a zip file'')"

text \<open>
  More samples: a styles part with the styles Heading2 (bold switched off) and Heading3
  (no name element); one whose only style has the bold element switched off and an
  alignment value that holds a line feed followed by the text of the bold line (written
  \<open>&#10;\<close> in the XML text); and one whose only style has a name element without a
  value and a size that is no number. A second sample platform parses these three
  texts. Two packages as archives have them: one with no styles part, and one whose
  styles part is named \<open>word/./styles.xml\<close>.
\<close>

definition jc_echo :: node where
  "jc_echo = Element ''w:jc'' [(''w:val'', ''center'' @ bold_line)] []"

definition rPr_Echo :: node where
  "rPr_Echo = Element ''w:rPr'' [] [bold_off]"

definition style_Echo :: node where
  "style_Echo =
     Element ''w:style'' [(''w:type'', ''paragraph''), (''w:styleId'', ''Heading4'')]
       [Element ''w:name'' [(''w:val'', ''heading 4'')] [],
        Element ''w:pPr'' [] [jc_echo],
        rPr_Echo]"

definition sz_abc :: node where
  "sz_abc = Element ''w:sz'' [(''w:val'', ''abc'')] []"

definition rPr_Unnamed :: node where
  "rPr_Unnamed = Element ''w:rPr'' [] [sz_abc]"

definition name_without_value :: node where
  "name_without_value = Element ''w:name'' [] []"

definition style_Unnamed :: node where
  "style_Unnamed =
     Element ''w:style'' [(''w:type'', ''paragraph''), (''w:styleId'', ''Heading5'')]
       [name_without_value, rPr_Unnamed]"

definition draft_styles_xml :: string where
  "draft_styles_xml =
     ''<w:styles xmlns:w='' @ quote @
     ''http://schemas.openxmlformats.org/wordprocessingml/2006/main'' @ quote @
     ''><w:style w:type='' @ quote @ ''paragraph'' @ quote @ '' w:styleId='' @ quote @
     ''Heading2'' @ quote @ ''><w:name w:val='' @ quote @ ''heading 2'' @ quote @
     ''/><w:rPr><w:b w:val='' @ quote @ ''0'' @ quote @ ''/><w:sz w:val='' @ quote @ ''24'' @
     quote @ ''/></w:rPr></w:style><w:style w:type='' @ quote @ ''paragraph'' @ quote @
     '' w:styleId='' @ quote @ ''Heading3'' @ quote @ ''><w:rPr><w:sz w:val='' @ quote @
     ''24'' @ quote @ ''/></w:rPr></w:style></w:styles>''"

definition draft_document :: document where
  "draft_document =
     [Element ''w:styles''
       [(''xmlns:w'', ''http://schemas.openxmlformats.org/wordprocessingml/2006/main'')]
       [style_Heading2, style_Heading3]]"

definition echo_styles_xml :: string where
  "echo_styles_xml =
     ''<w:styles xmlns:w='' @ quote @
     ''http://schemas.openxmlformats.org/wordprocessingml/2006/main'' @ quote @
     ''><w:style w:type='' @ quote @ ''paragraph'' @ quote @ '' w:styleId='' @ quote @
     ''Heading4'' @ quote @ ''><w:name w:val='' @ quote @ ''heading 4'' @ quote @
     ''/><w:pPr><w:jc w:val='' @ quote @ ''center&#10;  - '' @
     [CHR 0xE5, CHR 0x8A, CHR 0xA0] @ [CHR 0xE7, CHR 0xB2, CHR 0x97] @ '': '' @
     [CHR 0xE6, CHR 0x98, CHR 0xAF] @ quote @ ''/></w:pPr><w:rPr><w:b w:val='' @ quote @
     ''0'' @ quote @ ''/></w:rPr></w:style></w:styles>''"

definition echo_document :: document where
  "echo_document =
     [Element ''w:styles''
       [(''xmlns:w'', ''http://schemas.openxmlformats.org/wordprocessingml/2006/main'')]
       [style_Echo]]"

definition unnamed_styles_xml :: string where
  "unnamed_styles_xml =
     ''<w:styles xmlns:w='' @ quote @
     ''http://schemas.openxmlformats.org/wordprocessingml/2006/main'' @ quote @
     ''><w:style w:type='' @ quote @ ''paragraph'' @ quote @ '' w:styleId='' @ quote @
     ''Heading5'' @ quote @ ''><w:name/><w:rPr><w:sz w:val='' @ quote @ ''abc'' @ quote @
     ''/></w:rPr></w:style></w:styles>''"

definition unnamed_document :: document where
  "unnamed_document =
     [Element ''w:styles''
       [(''xmlns:w'', ''http://schemas.openxmlformats.org/wordprocessingml/2006/main'')]
       [style_Unnamed]]"

definition second_platform :: platform where
  "second_platform =
     \<lparr>parseFromString =
        (\<lambda>t. if t = draft_styles_xml then draft_document
             else if t = echo_styles_xml then echo_document
             else if t = unnamed_styles_xml then unnamed_document
             else parsererror_document),
      bigNumber = (\<lambda>n. ''?''),
      bigHalf = (\<lambda>n. ''?'')\<rparr>"

definition draft_docx :: docx_file where
  "draft_docx = Inr [''word/styles.xml'' \<mapsto> Inr draft_styles_xml]"

definition echo_docx :: docx_file where
  "echo_docx = Inr [''word/styles.xml'' \<mapsto> Inr echo_styles_xml]"

definition unnamed_docx :: docx_file where
  "unnamed_docx = Inr [''word/styles.xml'' \<mapsto> Inr unnamed_styles_xml]"

definition plain_package :: package where
  \<comment> \<open>an archive with no styles part\<close>
  "plain_package =
     Zip [(''[Content_Types].xml'', Inr ''<Types/>''),
          (''word/document.xml'', Inr ''<w:document/>'')]"

definition dotted_package :: package where
  \<comment> \<open>an archive whose styles part has a name with a segment \<open>.\<close>\<close>
  "dotted_package =
     Zip [(''word/document.xml'', Inr ''<w:document/>''),
          (''word/./styles.xml'', Inr thesis_styles_xml)]"

section \<open>Properties\<close>

subsection \<open>The loop only appends\<close>

lemma rPr_lines_append: "rPr_lines P rPr report = report @ rPr_lines P rPr []"
  by (simp add: rPr_lines_def Let_def split: option.splits)

lemma pPr_lines_append: "pPr_lines pPr report = report @ pPr_lines pPr []"
  by (simp add: pPr_lines_def Let_def split: option.splits)

lemma loop_body_included:
  "included style \<Longrightarrow>
   loop_body P style report =
     report @ [style_line style] @
     (case first (getElementsByTagName style ''w:rPr'') of
        None \<Rightarrow> [] | Some rPr \<Rightarrow> rPr_lines P rPr []) @
     (case first (getElementsByTagName style ''w:pPr'') of
        None \<Rightarrow> [] | Some pPr \<Rightarrow> pPr_lines pPr [])"
  by (simp add: loop_body_def included_def style_line_def Let_def
        rPr_lines_append [of _ _ "_ @ _"] pPr_lines_append [of _ "_ @ _"]
        split: option.splits)

lemma loop_body_skipped: "\<not> included style \<Longrightarrow> loop_body P style report = report"
  by (simp add: loop_body_def included_def Let_def)

lemma loop_body_append: "loop_body P style report = report @ style_block P style"
  unfolding style_block_def
  by (cases "included style") (simp_all add: loop_body_included loop_body_skipped)

lemma for_styles_append:
  "for_styles P styles report = report @ concat (map (style_block P) styles)"
proof (induction styles arbitrary: report)
  case Nil
  show ?case by simp
next
  case (Cons s styles)
  have "for_styles P (s # styles) report = for_styles P styles (loop_body P s report)"
    by simp
  also have "\<dots> = loop_body P s report @ concat (map (style_block P) styles)"
    by (rule Cons.IH)
  also have "\<dots> = report @ concat (map (style_block P) (s # styles))"
    using loop_body_append [of P s report] by simp
  finally show ?case .
qed

lemma style_block_skipped: "\<not> included style \<Longrightarrow> style_block P style = []"
  by (simp add: style_block_def loop_body_skipped)

lemma style_block_included:
  "included style \<Longrightarrow>
   style_block P style =
     [style_line style] @
     (case first (getElementsByTagName style ''w:rPr'') of
        None \<Rightarrow> [] | Some rPr \<Rightarrow> rPr_lines P rPr []) @
     (case first (getElementsByTagName style ''w:pPr'') of
        None \<Rightarrow> [] | Some pPr \<Rightarrow> pPr_lines pPr [])"
  by (simp add: style_block_def loop_body_included)

lemma concat_blocks_filter:
  "concat (map (style_block P) styles) = concat (map (style_block P) (filter included styles))"
  by (induction styles) (simp_all add: style_block_skipped)

lemma report_of_text:
  assumes "file = Inr z" and "zip_file z ''word/styles.xml'' = Some (Inr t)" and "t \<noteq> []"
  shows "parseDocxStyles P file =
         report_header @
         concat (concat (map (style_block P)
           (documentElementsByTagName (parseFromString P t) ''w:style'')))"
  using assms
  by (simp add: parseDocxStyles_def try_block_def read_styles_def for_styles_append)

lemma name_element_without_value:
  assumes "first (getElementsByTagName style ''w:name'') = Some nameNode"
    and "getAttribute nameNode ''w:val'' = None"
  shows "styleName style = None" and "template (styleName style) = ''null''"
  using assms by (simp_all add: styleName_def template_def)

subsection \<open>The fixed texts differ\<close>

lemma messages_distinct:
  "report_header \<noteq> not_found_message"
  "report_header \<noteq> parse_failure_message"
  "not_found_message \<noteq> parse_failure_message"
  by (simp_all add: report_header_def not_found_message_def parse_failure_message_def)

lemma header_not_prefix:
  "\<not> prefix report_header not_found_message"
  "\<not> prefix report_header parse_failure_message"
  by (simp_all add: report_header_def not_found_message_def parse_failure_message_def)

lemma read_report_not_failure:
  assumes "file = Inr z" and "zip_file z ''word/styles.xml'' = Some (Inr t)" and "t \<noteq> []"
  shows "parseDocxStyles P file \<noteq> parse_failure_message"
proof
  assume "parseDocxStyles P file = parse_failure_message"
  then have "prefix report_header parse_failure_message"
    using report_of_text [OF assms, of P] by (metis prefixI)
  then show False
    using header_not_prefix(2) by simp
qed

subsection \<open>Facts about the sample inputs\<close>

lemma xml_texts_differ:
  "letter_styles_xml \<noteq> thesis_styles_xml"
  "truncated_styles_xml \<noteq> thesis_styles_xml"
  "truncated_styles_xml \<noteq> letter_styles_xml"
  by (simp_all add: truncated_styles_xml_def thesis_styles_xml_def letter_styles_xml_def
        quote_def)

lemma xml_texts_nonempty:
  "thesis_styles_xml \<noteq> []" "letter_styles_xml \<noteq> []" "truncated_styles_xml \<noteq> []"
  by (simp_all add: truncated_styles_xml_def thesis_styles_xml_def letter_styles_xml_def)

lemma parse_samples:
  "parseFromString sample_platform thesis_styles_xml = thesis_document"
  "parseFromString sample_platform letter_styles_xml = letter_document"
  "parseFromString sample_platform truncated_styles_xml = parsererror_document"
  by (simp_all add: sample_platform_def xml_texts_differ)

lemma sample_styles:
  "documentElementsByTagName thesis_document ''w:style'' =
     [style_Normal, style_Heading1, style_Caption]"
  "documentElementsByTagName letter_document ''w:style'' = [style_Caption, style_Title]"
  "documentElementsByTagName parsererror_document ''w:style'' = []"
  by code_simp+

lemma sample_included:
  "included style_Normal" "included style_Heading1" "included style_Heading2"
  "included style_Heading3" "\<not> included style_Caption" "\<not> included style_Title"
  by code_simp+

section \<open>The claims\<close>

subsection \<open>The fallback messages\<close>

text \<open>
  When the dictionary that \<open>loadAsync\<close> returns has nothing under the path
  \<open>word/styles.xml\<close>, the body of \<open>try\<close> returns the "part not found" message.
\<close>

lemma missing_in_dictionary:
  assumes "file = Inr z" and "''word/styles.xml'' \<notin> dom z"
  shows "try_block P file = Inr not_found_message \<and>
         parseDocxStyles P file = not_found_message"
proof -
  have "zip_file z ''word/styles.xml'' = None"
    using assms(2) by (simp add: zip_file_def domIff)
  then show ?thesis
    using assms(1) by (simp add: parseDocxStyles_def try_block_def read_styles_def)
qed

text \<open>
  C5, as the code has it. When the bytes are not a ZIP container, \<open>loadAsync\<close> is
  rejected inside \<open>try\<close>, and the single \<open>catch\<close> returns the general "parse failure"
  message, which is not the "part not found" message. Nothing is thrown to the caller.
\<close>

theorem archive_error_recovered:
  "try_block P (Inl e) = Inl e \<and>
   parseDocxStyles P (Inl e) = parse_failure_message \<and>
   parse_failure_message \<noteq> not_found_message"
  using messages_distinct(3) by (simp add: parseDocxStyles_def try_block_def)

text \<open>C5 as stated fails: for a file that is not a ZIP container the result is not the
  "part not found" message.\<close>

theorem archive_error_counterexample:
  "parseDocxStyles sample_platform not_a_zip \<noteq> not_found_message"
  using messages_distinct(3) by (simp add: parseDocxStyles_def try_block_def not_a_zip_def)

text \<open>
  C10, as the code has it. When the archive opens and the entry \<open>word/styles.xml\<close> is
  read and its text is not empty, the result begins with the report header, whatever
  the parser makes of the text; when no style element passes the filter the result is
  the header alone; and the header differs from both fallback messages.
\<close>

theorem report_begins_with_header:
  assumes "file = Inr z" and "zip_file z ''word/styles.xml'' = Some (Inr t)" and "t \<noteq> []"
  shows "prefix report_header (parseDocxStyles P file) \<and>
         (filter included (documentElementsByTagName (parseFromString P t) ''w:style'') = []
            \<longrightarrow> parseDocxStyles P file = report_header) \<and>
         report_header \<noteq> not_found_message \<and> report_header \<noteq> parse_failure_message"
proof -
  let ?styles = "documentElementsByTagName (parseFromString P t) ''w:style''"
  have r: "parseDocxStyles P file =
           report_header @ concat (concat (map (style_block P) ?styles))"
    using assms by (rule report_of_text)
  have "filter included ?styles = [] \<Longrightarrow> parseDocxStyles P file = report_header"
    using r concat_blocks_filter [of P ?styles] by simp
  with r show ?thesis
    using messages_distinct(1,2) by simp
qed

text \<open>The styles part of the sample letter has the styles Caption and Title only.\<close>

theorem report_begins_with_header_witness:
  "zip_file [''word/document.xml'' \<mapsto> Inr ''<w:document/>'',
             ''word/styles.xml'' \<mapsto> Inr letter_styles_xml] ''word/styles.xml''
     = Some (Inr letter_styles_xml) \<and>
   letter_styles_xml \<noteq> [] \<and>
   filter included
     (documentElementsByTagName (parseFromString sample_platform letter_styles_xml)
        ''w:style'') = [] \<and>
   parseDocxStyles sample_platform letter_docx = report_header"
  using report_begins_with_header [of letter_docx
      "[''word/document.xml'' \<mapsto> Inr ''<w:document/>'',
        ''word/styles.xml'' \<mapsto> Inr letter_styles_xml]" letter_styles_xml sample_platform]
  by (simp add: letter_docx_def zip_file_def parse_samples sample_styles xml_texts_nonempty
        sample_included)

text \<open>C10 as stated fails: an entry \<open>word/styles.xml\<close> that is present and holds the
  empty text is taken for a missing one by the test \<open>!stylesXml\<close>.\<close>

theorem empty_styles_part_counterexample:
  "empty_styles_docx = Inr [''word/styles.xml'' \<mapsto> Inr []] \<and>
   zip_file [''word/styles.xml'' \<mapsto> Inr []] ''word/styles.xml'' = Some (Inr []) \<and>
   parseDocxStyles sample_platform empty_styles_docx = not_found_message \<and>
   \<not> prefix report_header (parseDocxStyles sample_platform empty_styles_docx)"
  using header_not_prefix(1)
  by (simp add: parseDocxStyles_def try_block_def read_styles_def zip_file_def
        empty_styles_docx_def)

text \<open>
  C3. The claim asks for the "parse failure" message when the styles part is present
  and is not well-formed XML. The source reaches that message only through \<open>catch\<close>,
  and the parser does not throw: on the sample package whose styles part is cut off
  inside its first tag, the parser returns its \<open>parsererror\<close> document, no
  \<open>w:style\<close> element is found in it, and the result is the report header alone.
  By \<open>read_report_not_failure\<close> no text that is read and is not empty gives the "parse
  failure" message, whatever document the parser returns for it.
\<close>

theorem malformed_styles_part_evaluated:
  "parseFromString sample_platform truncated_styles_xml = parsererror_document \<and>
   parseDocxStyles sample_platform truncated_docx = report_header \<and>
   parseDocxStyles sample_platform truncated_docx \<noteq> parse_failure_message"
  using messages_distinct(2)
  by (simp add: parseDocxStyles_def try_block_def read_styles_def zip_file_def
        truncated_docx_def xml_texts_nonempty parse_samples sample_styles)

subsection \<open>The relevance filter\<close>

lemma lower_words: "toLowerCase ''heading'' = ''heading''" "toLowerCase ''normal'' = ''normal''"
  by code_simp+

lemma included_iff_relevant: "included style \<longleftrightarrow> relevant style"
  by (simp add: included_def relevant_def isHeading_def isNormal_def includes_str_def
        contains_caseless_def lower_words split: option.splits)

lemma caption_not_relevant:
  assumes "getAttribute style ''w:styleId'' = Some ''Caption''"
    and "styleName style \<noteq> Some ''Normal''"
  shows "\<not> relevant style"
proof -
  have "\<not> contains_caseless ''Caption'' ''heading''" "\<not> contains_caseless ''Caption'' ''normal''"
    by code_simp+
  with assms show ?thesis by (simp add: relevant_def)
qed

subsection \<open>Reading and writing font sizes\<close>

lemma digit_char: "d < 10 \<Longrightarrow> (of_char (char_of (48 + d)) :: nat) = 48 + d"
  by simp

lemma digits_chars:
  "c \<in> set (digits k) \<Longrightarrow> 48 \<le> (of_char c :: nat) \<and> (of_char c :: nat) \<le> 57"
proof (induction k arbitrary: c rule: digits.induct)
  case (1 n)
  show ?case
  proof (cases "n < 10")
    case True
    with "1.prems" have "c = char_of (48 + n)" by (simp add: digits.simps [of n])
    with True show ?thesis by simp
  next
    case False
    with "1.prems" have "c \<in> set (digits (n div 10)) \<or> c = char_of (48 + n mod 10)"
      by (auto simp: digits.simps [of n])
    then show ?thesis
    proof
      assume "c \<in> set (digits (n div 10))"
      with False "1.IH" show ?thesis by simp
    next
      assume "c = char_of (48 + n mod 10)"
      moreover have "n mod 10 < 10" by simp
      ultimately show ?thesis using digit_char [of "n mod 10"] by simp
    qed
  qed
qed

lemma digits_nonempty: "digits k \<noteq> []"
  by (simp add: digits.simps [of k])

lemma digitValue_digit:
  "48 \<le> (of_char c :: nat) \<Longrightarrow> (of_char c :: nat) \<le> 57 \<Longrightarrow>
   digitValue c = Some (of_char c - 48)"
  by (simp add: digitValue_def)

lemma takeWhile_digits: "takeWhile (isRadixDigit 10) (digits k) = digits k"
proof -
  have "isRadixDigit 10 c" if "c \<in> set (digits k)" for c
  proof -
    have "48 \<le> (of_char c :: nat)" "(of_char c :: nat) \<le> 57"
      using digits_chars [OF that] by simp_all
    moreover from this have "(of_char c :: nat) - 48 < 10" by arith
    ultimately show ?thesis by (simp add: isRadixDigit_def digitValue_digit)
  qed
  then show ?thesis by (simp add: takeWhile_eq_all_conv)
qed

lemma mathInt_snoc:
  "mathInt R (Z @ [c]) = mathInt R Z * R + (case digitValue c of None \<Rightarrow> 0 | Some v \<Rightarrow> v)"
  by (simp add: mathInt_def)

lemma mathInt_digits: "mathInt 10 (digits k) = k"
proof (induction k rule: digits.induct)
  case (1 n)
  show ?case
  proof (cases "n < 10")
    case True
    then show ?thesis
      using mathInt_snoc [of 10 "[]" "char_of (48 + n)"]
      by (simp add: digits.simps [of n] digitValue_def Let_def mathInt_def)
  next
    case False
    have "digitValue (char_of (48 + n mod 10)) = Some (n mod 10)"
      using digit_char [of "n mod 10"] by (simp add: digitValue_def Let_def)
    with False "1.IH" show ?thesis
      by (simp add: digits.simps [of n] mathInt_snoc)
  qed
qed

lemma no_leading_white_space:
  assumes "45 \<le> (of_char c :: nat)" and "(of_char c :: nat) \<le> 57"
  shows "leadingWhiteSpace (c # cs) = 0"
proof -
  have "\<not> prefix w (c # cs)" if "w \<in> set WhiteSpace" for w
    using that assms by (auto simp: WhiteSpace_def)
  then have "find (\<lambda>w. prefix w (c # cs)) WhiteSpace = None"
    by (simp add: find_None_iff)
  then show ?thesis by (simp add: leadingWhiteSpace_def)
qed

lemma trimStart_digits: "trimStart (digits k) = digits k"
proof -
  obtain c cs where s: "digits k = c # cs"
    using digits_nonempty [of k] by (cases "digits k") auto
  then have "c \<in> set (digits k)" by simp
  then have "leadingWhiteSpace (c # cs) = 0"
    using digits_chars [of c k] by (intro no_leading_white_space) simp_all
  then show ?thesis by (simp add: s trimStart.simps [of "c # cs"])
qed

lemma trimStart_minus: "trimStart (CHR ''-'' # s) = CHR ''-'' # s"
  using no_leading_white_space [of "CHR ''-''" s]
  by (simp add: trimStart.simps [of "CHR ''-'' # s"])

lemma digits_no_prefix:
  "\<not> prefix ''-'' (digits k)" "\<not> prefix ''+'' (digits k)"
  "\<not> prefix ''0x'' (digits k)" "\<not> prefix ''0X'' (digits k)"
proof -
  have a: "\<not> prefix p (digits k)" if "c \<in> set p" "(of_char c :: nat) < 48 \<or> 57 < (of_char c :: nat)"
    for p c
  proof
    assume "prefix p (digits k)"
    then have "set p \<subseteq> set (digits k)" by (rule set_mono_prefix)
    with that(1) have "c \<in> set (digits k)" by auto
    with that(2) digits_chars [of c k] show False by simp
  qed
  show "\<not> prefix ''-'' (digits k)" by (rule a [of "CHR ''-''"]) simp_all
  show "\<not> prefix ''+'' (digits k)" by (rule a [of "CHR ''+''"]) simp_all
  show "\<not> prefix ''0x'' (digits k)" by (rule a [of "CHR ''x''"]) simp_all
  show "\<not> prefix ''0X'' (digits k)" by (rule a [of "CHR ''X''"]) simp_all
qed

lemma parseInt_digits: "parseInt (digits k) = Integer (int k)"
  by (simp add: parseInt_def Let_def trimStart_digits digits_no_prefix takeWhile_digits
        mathInt_digits digits_nonempty)

lemma parseInt_minus_digits: "parseInt (CHR ''-'' # digits k) = Integer (- int k)"
  by (simp add: parseInt_def Let_def trimStart_minus digits_no_prefix takeWhile_digits
        mathInt_digits digits_nonempty)

lemma parseInt_decimal: "parseInt (decimal n) = Integer n"
  by (simp add: decimal_def parseInt_digits parseInt_minus_digits)

lemma decimalHalf_even: "even n \<Longrightarrow> decimalHalf n = decimal (n div 2)"
proof -
  assume "even n"
  then obtain k where n: "n = 2 * k" by (elim evenE)
  have "nat \<bar>n\<bar> div 2 = nat \<bar>k\<bar>" using n by (simp add: abs_mult nat_mult_distrib)
  moreover have "n < 0 \<longleftrightarrow> k < 0" using n by simp
  ultimately show ?thesis using n by (simp add: decimalHalf_def decimal_def)
qed

lemma decimalHalf_odd: "odd n \<Longrightarrow> 0 \<le> n \<Longrightarrow> decimalHalf n = decimal (n div 2) @ ''.5''"
proof -
  assume "odd n" and "0 \<le> n"
  have "nat \<bar>n\<bar> div 2 = nat \<bar>n div 2\<bar>"
    using \<open>0 \<le> n\<close> by (simp add: nat_div_distrib)
  then show ?thesis
    using \<open>odd n\<close> \<open>0 \<le> n\<close> by (simp add: decimalHalf_def decimal_def)
qed

subsection \<open>The order of the blocks\<close>




subsection \<open>The report, block by block\<close>

lemma rPr_text: "concat (rPr_lines P rPr []) = font_line rPr @ size_line P rPr @ bold_text rPr"
  by (simp add: rPr_lines_def font_line_def size_line_def bold_text_def Let_def
      split: option.splits)

lemma pPr_text: "concat (pPr_lines pPr []) = spacing_line pPr @ jc_line pPr"
  by (simp add: pPr_lines_def spacing_line_def jc_line_def Let_def split: option.splits)

lemma block_text:
  "concat (style_block P style) = (if relevant style then described_block P style else [])"
proof (cases "included style")
  case True
  then show ?thesis
    by (simp add: style_block_included included_iff_relevant [symmetric] described_block_def
        run_text_def paragraph_text_def rPr_text pPr_text split: option.splits)
next
  case False
  then show ?thesis
    by (simp add: style_block_skipped included_iff_relevant [symmetric])
qed

lemma blocks_text: "concat (concat (map (style_block P) styles)) = described_blocks P styles"
  by (induction styles) (simp_all add: described_blocks_def block_text)

lemma described_blocks_append:
  "described_blocks P (before @ style # after) =
   described_blocks P before @ (if relevant style then described_block P style else []) @
   described_blocks P after"
  by (simp add: described_blocks_def)

lemma report_at_style:
  assumes "file = Inr z" and "zip_file z ''word/styles.xml'' = Some (Inr t)" and "t \<noteq> []"
    and "documentElementsByTagName (parseFromString P t) ''w:style'' = before @ style # after"
  shows "parseDocxStyles P file =
         report_header @ described_blocks P before @
         (if relevant style then described_block P style else []) @
         described_blocks P after"
proof -
  have "parseDocxStyles P file =
        report_header @
        concat (concat (map (style_block P)
          (documentElementsByTagName (parseFromString P t) ''w:style'')))"
    by (rule report_of_text [OF assms(1-3)])
  also have "\<dots> = report_header @ described_blocks P (before @ style # after)"
    by (simp only: blocks_text assms(4))
  finally show ?thesis
    by (simp only: described_blocks_append)
qed

lemma block_lines_text: "concat (block_lines P style) = described_block P style"
  by (simp add: block_lines_def described_block_def run_text_def paragraph_text_def
      split: option.splits)

subsection \<open>Facts about the further samples\<close>

lemma second_texts_differ:
  "echo_styles_xml \<noteq> draft_styles_xml"
  "unnamed_styles_xml \<noteq> draft_styles_xml"
  "unnamed_styles_xml \<noteq> echo_styles_xml"
  by (simp_all add: draft_styles_xml_def echo_styles_xml_def unnamed_styles_xml_def quote_def)

lemma second_texts_nonempty:
  "draft_styles_xml \<noteq> []" "echo_styles_xml \<noteq> []" "unnamed_styles_xml \<noteq> []"
  by (simp_all add: draft_styles_xml_def echo_styles_xml_def unnamed_styles_xml_def)

lemma parse_second:
  "parseFromString second_platform draft_styles_xml = draft_document"
  "parseFromString second_platform echo_styles_xml = echo_document"
  "parseFromString second_platform unnamed_styles_xml = unnamed_document"
  by (simp_all add: second_platform_def second_texts_differ)

lemma second_styles:
  "documentElementsByTagName draft_document ''w:style'' = [style_Heading2, style_Heading3]"
  "documentElementsByTagName echo_document ''w:style'' = [style_Echo]"
  "documentElementsByTagName unnamed_document ''w:style'' = [style_Unnamed]"
  by code_simp+

lemma sample_relevant:
  "relevant style_Normal" "relevant style_Heading1" "relevant style_Heading2"
  "relevant style_Heading3" "relevant style_Echo" "relevant style_Unnamed"
  "\<not> relevant style_Caption"
  by code_simp+

lemma sample_read:
  "zip_file [''word/document.xml'' \<mapsto> Inr ''<w:document/>'',
             ''word/styles.xml'' \<mapsto> Inr thesis_styles_xml] ''word/styles.xml''
     = Some (Inr thesis_styles_xml)"
  "zip_file [''word/styles.xml'' \<mapsto> Inr draft_styles_xml] ''word/styles.xml''
     = Some (Inr draft_styles_xml)"
  "zip_file [''word/styles.xml'' \<mapsto> Inr echo_styles_xml] ''word/styles.xml''
     = Some (Inr echo_styles_xml)"
  "zip_file [''word/styles.xml'' \<mapsto> Inr unnamed_styles_xml] ''word/styles.xml''
     = Some (Inr unnamed_styles_xml)"
  by (simp_all add: zip_file_def)

lemma thesis_report:
  "parseDocxStyles sample_platform thesis_docx =
     report_header @
     style_label @ ''Normal (ID: Normal)]'' @
     font_label @ ''Times New Roman'' @ eastAsia_label @ ''SimSun'' @ quote @
     size_label @ ''21'' @ that_is @ ''10.5pt)'' @
     spacing_label @ ''360'' @ rule_label @ ''auto)'' @
     jc_label @ ''both'' @
     style_label @ ''heading 1 (ID: Heading1)]'' @
     font_label @ ''Times New Roman'' @ eastAsia_label @ ''SimSun'' @ quote @
     size_label @ ''24'' @ that_is @ ''12pt)'' @
     bold_line @
     spacing_label @ ''360'' @ rule_label @ ''auto)'' @
     jc_label @ ''center''"
  by code_simp

lemma draft_report:
  "parseDocxStyles second_platform draft_docx =
     report_header @
     style_label @ ''heading 2 (ID: Heading2)]'' @
     size_label @ ''24'' @ that_is @ ''12pt)'' @
     style_label @ ''Heading3 (ID: Heading3)]'' @
     size_label @ ''24'' @ that_is @ ''12pt)''"
  by code_simp

lemma echo_report:
  "parseDocxStyles second_platform echo_docx =
     report_header @
     style_label @ ''heading 4 (ID: Heading4)]'' @
     jc_label @ ''center'' @ bold_line"
  by code_simp

lemma unnamed_report:
  "parseDocxStyles second_platform unnamed_docx =
     report_header @
     style_label @ ''null (ID: Heading5)]'' @
     size_label @ ''NaN'' @ that_is @ ''NaNpt)''"
  by code_simp

subsection \<open>Which styles have a block\<close>

lemma style_line_nonempty: "style_line style \<noteq> []"
  by (simp add: style_line_def style_label_def)

text \<open>
  C1. Let the styles part be read and let \<open>style\<close> be any of its style elements, the
  elements before it being \<open>before\<close> and those after it \<open>after\<close>. The returned report is
  the header, the blocks of the relevant elements of \<open>before\<close>, then the block of \<open>style\<close>
  when \<open>style\<close> is relevant and nothing when it is not, then the blocks of the relevant
  elements of \<open>after\<close>. A block is never empty: it starts with the style's header line.
  A style with identifier \<open>Caption\<close> whose display name is not \<open>Normal\<close> adds nothing to
  the report, whatever else the element holds.
\<close>

theorem relevant_styles_in_report:
  assumes "file = Inr z" and "zip_file z ''word/styles.xml'' = Some (Inr t)" and "t \<noteq> []"
    and "documentElementsByTagName (parseFromString P t) ''w:style'' = before @ style # after"
  shows "parseDocxStyles P file =
           report_header @ described_blocks P before @
           (if relevant style then described_block P style else []) @
           described_blocks P after \<and>
         described_block P style \<noteq> [] \<and>
         prefix (style_line style) (described_block P style) \<and>
         (getAttribute style ''w:styleId'' = Some ''Caption'' \<and>
          styleName style \<noteq> Some ''Normal'' \<longrightarrow>
            parseDocxStyles P file =
              report_header @ described_blocks P before @ described_blocks P after)"
proof -
  have r: "parseDocxStyles P file =
           report_header @ described_blocks P before @
           (if relevant style then described_block P style else []) @
           described_blocks P after"
    using assms by (rule report_at_style)
  have "described_block P style \<noteq> []" "prefix (style_line style) (described_block P style)"
    by (simp_all add: described_block_def style_line_nonempty)
  moreover have "parseDocxStyles P file =
      report_header @ described_blocks P before @ described_blocks P after"
    if "getAttribute style ''w:styleId'' = Some ''Caption''" "styleName style \<noteq> Some ''Normal''"
    using r caption_not_relevant [OF that] by simp
  ultimately show ?thesis
    using r by blast
qed

text \<open>In the sample thesis, Caption is bold and has a size and adds nothing; Heading1 has
  its block between those of the elements around it.\<close>

theorem relevant_styles_in_report_witness:
  "parseDocxStyles sample_platform thesis_docx =
     report_header @
     style_label @ ''Normal (ID: Normal)]'' @
     font_label @ ''Times New Roman'' @ eastAsia_label @ ''SimSun'' @ quote @
     size_label @ ''21'' @ that_is @ ''10.5pt)'' @
     spacing_label @ ''360'' @ rule_label @ ''auto)'' @
     jc_label @ ''both'' @
     style_label @ ''heading 1 (ID: Heading1)]'' @
     font_label @ ''Times New Roman'' @ eastAsia_label @ ''SimSun'' @ quote @
     size_label @ ''24'' @ that_is @ ''12pt)'' @
     bold_line @
     spacing_label @ ''360'' @ rule_label @ ''auto)'' @
     jc_label @ ''center'' \<and>
   zip_file [''word/document.xml'' \<mapsto> Inr ''<w:document/>'',
             ''word/styles.xml'' \<mapsto> Inr thesis_styles_xml] ''word/styles.xml''
     = Some (Inr thesis_styles_xml) \<and>
   thesis_styles_xml \<noteq> [] \<and>
   documentElementsByTagName (parseFromString sample_platform thesis_styles_xml) ''w:style''
     = [style_Normal, style_Heading1] @ style_Caption # [] \<and>
   getAttribute style_Caption ''w:styleId'' = Some ''Caption'' \<and>
   styleName style_Caption = Some ''caption'' \<and>
   parseDocxStyles sample_platform thesis_docx =
     report_header @ described_blocks sample_platform [style_Normal, style_Heading1] \<and>
   documentElementsByTagName (parseFromString sample_platform thesis_styles_xml) ''w:style''
     = [style_Normal] @ style_Heading1 # [style_Caption] \<and>
   relevant style_Heading1 \<and>
   parseDocxStyles sample_platform thesis_docx =
     report_header @ described_blocks sample_platform [style_Normal] @
     described_block sample_platform style_Heading1 @
     described_blocks sample_platform [style_Caption]"
proof -
  have c: "getAttribute style_Caption ''w:styleId'' = Some ''Caption''"
    "styleName style_Caption = Some ''caption''"
    by code_simp+
  have s1: "documentElementsByTagName (parseFromString sample_platform thesis_styles_xml)
      ''w:style'' = [style_Normal, style_Heading1] @ style_Caption # []"
    and s2: "documentElementsByTagName (parseFromString sample_platform thesis_styles_xml)
      ''w:style'' = [style_Normal] @ style_Heading1 # [style_Caption]"
    by (simp_all add: parse_samples sample_styles)
  have "zip_file [''word/document.xml'' \<mapsto> Inr ''<w:document/>'',
               ''word/styles.xml'' \<mapsto> Inr thesis_styles_xml] ''word/styles.xml''
       = Some (Inr thesis_styles_xml) \<and>
     thesis_styles_xml \<noteq> [] \<and>
     documentElementsByTagName (parseFromString sample_platform thesis_styles_xml) ''w:style''
       = [style_Normal, style_Heading1] @ style_Caption # [] \<and>
     getAttribute style_Caption ''w:styleId'' = Some ''Caption'' \<and>
     styleName style_Caption = Some ''caption'' \<and>
     parseDocxStyles sample_platform thesis_docx =
       report_header @ described_blocks sample_platform [style_Normal, style_Heading1] \<and>
     documentElementsByTagName (parseFromString sample_platform thesis_styles_xml) ''w:style''
       = [style_Normal] @ style_Heading1 # [style_Caption] \<and>
     relevant style_Heading1 \<and>
     parseDocxStyles sample_platform thesis_docx =
       report_header @ described_blocks sample_platform [style_Normal] @
       described_block sample_platform style_Heading1 @
       described_blocks sample_platform [style_Caption]"
    using relevant_styles_in_report [OF thesis_docx_def sample_read(1) xml_texts_nonempty(1) s1]
      relevant_styles_in_report [OF thesis_docx_def sample_read(1) xml_texts_nonempty(1) s2]
      c s1 s2 sample_read(1) xml_texts_nonempty(1) sample_relevant(2)
    by (simp add: described_blocks_def)
  with thesis_report show ?thesis
    by (rule conjI)
qed

subsection \<open>Paragraph lines and the header line\<close>

lemma sublist_middle: "text = pre @ a @ post \<Longrightarrow> sublist a text"
  by simp

text \<open>
  C7. Let the styles part be read and let \<open>style\<close> be one of its style elements, relevant,
  whose first paragraph-properties element holds a spacing element with a line value
  and a rule and a justification element with a value. In the returned report the
  block of \<open>style\<close> is its header line, its run-properties lines, the spacing line and the
  alignment line, the two last holding the three values as they stand in the document
  between the fixed labels; so each value is part of the returned text. The claim is
  the case of the values \<open>360\<close>, \<open>auto\<close> and \<open>center\<close>.
\<close>

theorem spacing_and_alignment_in_report:
  assumes "file = Inr z" and "zip_file z ''word/styles.xml'' = Some (Inr t)" and "t \<noteq> []"
    and "documentElementsByTagName (parseFromString P t) ''w:style'' = before @ style # after"
    and "relevant style"
    and "first (getElementsByTagName style ''w:pPr'') = Some pPr"
    and "first (getElementsByTagName pPr ''w:spacing'') = Some spacing"
    and "getAttribute spacing ''w:line'' = Some line"
    and "getAttribute spacing ''w:lineRule'' = Some rule"
    and "first (getElementsByTagName pPr ''w:jc'') = Some jc"
    and "getAttribute jc ''w:val'' = Some align"
  shows "parseDocxStyles P file =
           report_header @ described_blocks P before @
           (style_line style @ run_text P style @
            spacing_label @ line @ rule_label @ rule @ '')'' @
            jc_label @ align) @
           described_blocks P after \<and>
         sublist line (parseDocxStyles P file) \<and>
         sublist rule (parseDocxStyles P file) \<and>
         sublist align (parseDocxStyles P file)"
proof -
  have p: "paragraph_text style =
           spacing_label @ line @ rule_label @ rule @ '')'' @ jc_label @ align"
    using assms(6-11)
    by (simp add: paragraph_text_def spacing_line_def jc_line_def template_def)
  have r: "parseDocxStyles P file =
           report_header @ described_blocks P before @
           (style_line style @ run_text P style @
            spacing_label @ line @ rule_label @ rule @ '')'' @
            jc_label @ align) @
           described_blocks P after"
    using report_at_style [OF assms(1-4)] assms(5) p by (simp add: described_block_def)
  have "sublist line (parseDocxStyles P file)"
    by (rule sublist_middle
        [of _ "report_header @ described_blocks P before @ style_line style @
               run_text P style @ spacing_label" _
            "rule_label @ rule @ '')'' @ jc_label @ align @ described_blocks P after"])
       (simp add: r)
  moreover have "sublist rule (parseDocxStyles P file)"
    by (rule sublist_middle
        [of _ "report_header @ described_blocks P before @ style_line style @
               run_text P style @ spacing_label @ line @ rule_label" _
            "'')'' @ jc_label @ align @ described_blocks P after"])
       (simp add: r)
  moreover have "sublist align (parseDocxStyles P file)"
    by (rule sublist_middle
        [of _ "report_header @ described_blocks P before @ style_line style @
               run_text P style @ spacing_label @ line @ rule_label @ rule @ '')'' @
               jc_label" _
            "described_blocks P after"])
       (simp add: r)
  ultimately show ?thesis
    using r by blast
qed

text \<open>Heading1 of the sample thesis has the values \<open>360\<close>, \<open>auto\<close> and \<open>center\<close>.\<close>

theorem spacing_and_alignment_in_report_witness:
  "zip_file [''word/document.xml'' \<mapsto> Inr ''<w:document/>'',
             ''word/styles.xml'' \<mapsto> Inr thesis_styles_xml] ''word/styles.xml''
     = Some (Inr thesis_styles_xml) \<and>
   thesis_styles_xml \<noteq> [] \<and>
   documentElementsByTagName (parseFromString sample_platform thesis_styles_xml) ''w:style''
     = [style_Normal] @ style_Heading1 # [style_Caption] \<and>
   relevant style_Heading1 \<and>
   first (getElementsByTagName style_Heading1 ''w:pPr'') = Some pPr_Heading1 \<and>
   first (getElementsByTagName pPr_Heading1 ''w:spacing'') = Some spacing_360_auto \<and>
   getAttribute spacing_360_auto ''w:line'' = Some ''360'' \<and>
   getAttribute spacing_360_auto ''w:lineRule'' = Some ''auto'' \<and>
   first (getElementsByTagName pPr_Heading1 ''w:jc'') = Some jc_center \<and>
   getAttribute jc_center ''w:val'' = Some ''center'' \<and>
   parseDocxStyles sample_platform thesis_docx =
     report_header @ described_blocks sample_platform [style_Normal] @
     (style_line style_Heading1 @ run_text sample_platform style_Heading1 @
      spacing_label @ ''360'' @ rule_label @ ''auto'' @ '')'' @
      jc_label @ ''center'') @
     described_blocks sample_platform [style_Caption] \<and>
   sublist ''360'' (parseDocxStyles sample_platform thesis_docx) \<and>
   sublist ''auto'' (parseDocxStyles sample_platform thesis_docx) \<and>
   sublist ''center'' (parseDocxStyles sample_platform thesis_docx)"
proof -
  have s: "documentElementsByTagName (parseFromString sample_platform thesis_styles_xml)
      ''w:style'' = [style_Normal] @ style_Heading1 # [style_Caption]"
    by (simp add: parse_samples sample_styles)
  have h: "first (getElementsByTagName style_Heading1 ''w:pPr'') = Some pPr_Heading1"
    "first (getElementsByTagName pPr_Heading1 ''w:spacing'') = Some spacing_360_auto"
    "getAttribute spacing_360_auto ''w:line'' = Some ''360''"
    "getAttribute spacing_360_auto ''w:lineRule'' = Some ''auto''"
    "first (getElementsByTagName pPr_Heading1 ''w:jc'') = Some jc_center"
    "getAttribute jc_center ''w:val'' = Some ''center''"
    by code_simp+
  from spacing_and_alignment_in_report
    [OF thesis_docx_def sample_read(1) xml_texts_nonempty(1) s sample_relevant(2) h]
  show ?thesis
    using s h sample_read(1) xml_texts_nonempty(1) sample_relevant(2) by blast
qed

text \<open>
  C9, as the code has it. Let the styles part be read and let \<open>style\<close> be one of its style
  elements, with no name element. Its display name is its identifier: the filter's
  test of the display name against \<open>Normal\<close> is a test of the identifier, and when the
  style passes the filter the header line of its block in the returned report shows
  the identifier twice.
\<close>

theorem display_name_fallback_in_report:
  assumes "file = Inr z" and "zip_file z ''word/styles.xml'' = Some (Inr t)" and "t \<noteq> []"
    and "documentElementsByTagName (parseFromString P t) ''w:style'' = before @ style # after"
    and "getElementsByTagName style ''w:name'' = []"
  shows "styleName style = getAttribute style ''w:styleId'' \<and>
         parseDocxStyles P file =
           report_header @ described_blocks P before @
           (case getAttribute style ''w:styleId'' of
              None \<Rightarrow> []
            | Some ident \<Rightarrow>
                if contains_caseless ident ''heading'' \<or> contains_caseless ident ''normal'' \<or>
                   ident = ''Normal''
                then style_label @ ident @ '' (ID: '' @ ident @ '')]'' @
                     run_text P style @ paragraph_text style
                else []) @
           described_blocks P after"
proof -
  have n: "styleName style = getAttribute style ''w:styleId''"
    using assms(5) by (simp add: styleName_def first_def)
  have "(if relevant style then described_block P style else []) =
        (case getAttribute style ''w:styleId'' of
           None \<Rightarrow> []
         | Some ident \<Rightarrow>
             if contains_caseless ident ''heading'' \<or> contains_caseless ident ''normal'' \<or>
                ident = ''Normal''
             then style_label @ ident @ '' (ID: '' @ ident @ '')]'' @
                  run_text P style @ paragraph_text style
             else [])"
    by (auto simp: relevant_def n described_block_def style_line_def template_def
        split: option.splits)
  then show ?thesis
    using report_at_style [OF assms(1-4)] n by simp
qed

text \<open>Heading3 of the sample draft has no name element.\<close>

theorem display_name_fallback_in_report_witness:
  "zip_file [''word/styles.xml'' \<mapsto> Inr draft_styles_xml] ''word/styles.xml''
     = Some (Inr draft_styles_xml) \<and>
   draft_styles_xml \<noteq> [] \<and>
   documentElementsByTagName (parseFromString second_platform draft_styles_xml) ''w:style''
     = [style_Heading2] @ style_Heading3 # [] \<and>
   getElementsByTagName style_Heading3 ''w:name'' = [] \<and>
   getAttribute style_Heading3 ''w:styleId'' = Some ''Heading3'' \<and>
   styleName style_Heading3 = Some ''Heading3'' \<and>
   parseDocxStyles second_platform draft_docx =
     report_header @ described_blocks second_platform [style_Heading2] @
     style_label @ ''Heading3 (ID: Heading3)]'' @
     run_text second_platform style_Heading3 @ paragraph_text style_Heading3"
proof -
  have s: "documentElementsByTagName (parseFromString second_platform draft_styles_xml)
      ''w:style'' = [style_Heading2] @ style_Heading3 # []"
    by (simp add: parse_second second_styles)
  have h: "getElementsByTagName style_Heading3 ''w:name'' = []"
    by code_simp
  have i: "getAttribute style_Heading3 ''w:styleId'' = Some ''Heading3''"
    "contains_caseless ''Heading3'' ''heading''"
    by code_simp+
  show ?thesis
    using display_name_fallback_in_report
      [OF draft_docx_def sample_read(2) second_texts_nonempty(1) s h]
      s h i sample_read(2) second_texts_nonempty(1)
    by (simp add: described_blocks_def)
qed

text \<open>C9 as stated fails: a name element without a value attribute leaves the display
  name absent too, and the header line then shows \<open>null\<close>, not the identifier.\<close>

theorem name_without_value_counterexample:
  "documentElementsByTagName (parseFromString second_platform unnamed_styles_xml) ''w:style''
     = [style_Unnamed] \<and>
   getAttribute style_Unnamed ''w:styleId'' = Some ''Heading5'' \<and>
   first (getElementsByTagName style_Unnamed ''w:name'') = Some name_without_value \<and>
   getAttribute name_without_value ''w:val'' = None \<and>
   parseDocxStyles second_platform unnamed_docx =
     report_header @ style_label @ ''null (ID: Heading5)]'' @
     size_label @ ''NaN'' @ that_is @ ''NaNpt)'' \<and>
   \<not> sublist (style_label @ ''Heading5 (ID: Heading5)]'')
       (parseDocxStyles second_platform unnamed_docx)"
proof -
  have "documentElementsByTagName (parseFromString second_platform unnamed_styles_xml)
      ''w:style'' = [style_Unnamed]"
    by (simp add: parse_second second_styles)
  moreover have "getAttribute style_Unnamed ''w:styleId'' = Some ''Heading5''"
    "first (getElementsByTagName style_Unnamed ''w:name'') = Some name_without_value"
    "getAttribute name_without_value ''w:val'' = None"
    "\<not> sublist (style_label @ ''Heading5 (ID: Heading5)]'')
       (parseDocxStyles second_platform unnamed_docx)"
    by code_simp+
  ultimately show ?thesis
    using unnamed_report by simp
qed

subsection \<open>The size line\<close>

text \<open>
  C6, as the code has it. Let the styles part be read and let \<open>style\<close> be one of its style
  elements, relevant, whose first run-properties element holds a size element with a
  value that \<open>parseInt\<close> reads as the safe integer \<open>n\<close> (the decimal numeral of \<open>n\<close>
  is read so). In the returned report the block of \<open>style\<close> has,
  after the header line and the font line, the size line with \<open>n\<close> in decimal and then
  \<open>n/2\<close> as the division of doubles gives it, which does not round: the decimal of
  \<open>n div 2\<close> when \<open>n\<close> is even, and that followed by \<open>.5\<close> when \<open>n\<close> is odd and not negative.
\<close>

theorem size_line_in_report:
  assumes "file = Inr z" and "zip_file z ''word/styles.xml'' = Some (Inr t)" and "t \<noteq> []"
    and "documentElementsByTagName (parseFromString P t) ''w:style'' = before @ style # after"
    and "relevant style"
    and "first (getElementsByTagName style ''w:rPr'') = Some rPr"
    and "first (getElementsByTagName rPr ''w:sz'') = Some sz"
    and "getAttribute sz ''w:val'' = Some v" and "v \<noteq> []"
    and "parseInt v = Integer n" and "isSafeInteger n"
  shows "parseDocxStyles P file =
           report_header @ described_blocks P before @
           (style_line style @ font_line rPr @
            size_label @ decimal n @ that_is @ decimalHalf n @ ''pt)'' @
            bold_text rPr @ paragraph_text style) @
           described_blocks P after \<and>
         (even n \<longrightarrow> decimalHalf n = decimal (n div 2)) \<and>
         (odd n \<and> 0 \<le> n \<longrightarrow> decimalHalf n = decimal (n div 2) @ ''.5'') \<and>
         parseInt (decimal n) = Integer n"
proof -
  have "or_else (getAttribute sz ''w:val'') ''0'' = v"
    using assms(8,9) by (simp add: or_else_def)
  then have "size_line P rPr = size_label @ decimal n @ that_is @ decimalHalf n @ ''pt)''"
    using assms(7,10,11) by (simp add: size_line_def numberText_def halfText_def)
  then have "described_block P style =
      style_line style @ font_line rPr @
      size_label @ decimal n @ that_is @ decimalHalf n @ ''pt)'' @
      bold_text rPr @ paragraph_text style"
    using assms(6) by (simp add: described_block_def run_text_def)
  then show ?thesis
    using report_at_style [OF assms(1-4)] assms(5) decimalHalf_even [of n]
      decimalHalf_odd [of n] parseInt_decimal [of n]
    by simp
qed

text \<open>The size 24 of Heading1 gives 24 and 12; the size 21 of Normal gives 21 and 10.5.\<close>

theorem size_line_in_report_witness:
  "zip_file [''word/document.xml'' \<mapsto> Inr ''<w:document/>'',
             ''word/styles.xml'' \<mapsto> Inr thesis_styles_xml] ''word/styles.xml''
     = Some (Inr thesis_styles_xml) \<and>
   thesis_styles_xml \<noteq> [] \<and>
   documentElementsByTagName (parseFromString sample_platform thesis_styles_xml) ''w:style''
     = [style_Normal] @ style_Heading1 # [style_Caption] \<and>
   relevant style_Heading1 \<and>
   first (getElementsByTagName style_Heading1 ''w:rPr'') = Some rPr_Heading1 \<and>
   first (getElementsByTagName rPr_Heading1 ''w:sz'') = Some sz_24 \<and>
   getAttribute sz_24 ''w:val'' = Some ''24'' \<and>
   parseInt ''24'' = Integer 24 \<and> isSafeInteger 24 \<and>
   parseDocxStyles sample_platform thesis_docx =
     report_header @ described_blocks sample_platform [style_Normal] @
     (style_line style_Heading1 @ font_line rPr_Heading1 @
      size_label @ ''24'' @ that_is @ ''12'' @ ''pt)'' @
      bold_text rPr_Heading1 @ paragraph_text style_Heading1) @
     described_blocks sample_platform [style_Caption] \<and>
   documentElementsByTagName (parseFromString sample_platform thesis_styles_xml) ''w:style''
     = [] @ style_Normal # [style_Heading1, style_Caption] \<and>
   relevant style_Normal \<and>
   first (getElementsByTagName style_Normal ''w:rPr'') = Some rPr_Normal \<and>
   first (getElementsByTagName rPr_Normal ''w:sz'') = Some sz_21 \<and>
   getAttribute sz_21 ''w:val'' = Some ''21'' \<and>
   parseInt ''21'' = Integer 21 \<and> isSafeInteger 21 \<and>
   parseDocxStyles sample_platform thesis_docx =
     report_header @ described_blocks sample_platform [] @
     (style_line style_Normal @ font_line rPr_Normal @
      size_label @ ''21'' @ that_is @ ''10.5'' @ ''pt)'' @
      bold_text rPr_Normal @ paragraph_text style_Normal) @
     described_blocks sample_platform [style_Heading1, style_Caption]"
proof -
  have s1: "documentElementsByTagName (parseFromString sample_platform thesis_styles_xml)
      ''w:style'' = [style_Normal] @ style_Heading1 # [style_Caption]"
    and s2: "documentElementsByTagName (parseFromString sample_platform thesis_styles_xml)
      ''w:style'' = [] @ style_Normal # [style_Heading1, style_Caption]"
    by (simp_all add: parse_samples sample_styles)
  have h: "first (getElementsByTagName style_Heading1 ''w:rPr'') = Some rPr_Heading1"
    "first (getElementsByTagName rPr_Heading1 ''w:sz'') = Some sz_24"
    "getAttribute sz_24 ''w:val'' = Some ''24''" "''24'' \<noteq> []"
    "parseInt ''24'' = Integer 24" "isSafeInteger 24"
    by code_simp+
  have n: "first (getElementsByTagName style_Normal ''w:rPr'') = Some rPr_Normal"
    "first (getElementsByTagName rPr_Normal ''w:sz'') = Some sz_21"
    "getAttribute sz_21 ''w:val'' = Some ''21''" "''21'' \<noteq> []"
    "parseInt ''21'' = Integer 21" "isSafeInteger 21"
    by code_simp+
  have d: "decimal 24 = ''24''" "decimalHalf 24 = ''12''"
    "decimal 21 = ''21''" "decimalHalf 21 = ''10.5''"
    by code_simp+
  have a: "parseDocxStyles sample_platform thesis_docx =
     report_header @ described_blocks sample_platform [style_Normal] @
     (style_line style_Heading1 @ font_line rPr_Heading1 @
      size_label @ decimal 24 @ that_is @ decimalHalf 24 @ ''pt)'' @
      bold_text rPr_Heading1 @ paragraph_text style_Heading1) @
     described_blocks sample_platform [style_Caption]"
    using size_line_in_report
      [OF thesis_docx_def sample_read(1) xml_texts_nonempty(1) s1 sample_relevant(2) h]
    by (rule conjunct1)
  have b: "parseDocxStyles sample_platform thesis_docx =
     report_header @ described_blocks sample_platform [] @
     (style_line style_Normal @ font_line rPr_Normal @
      size_label @ decimal 21 @ that_is @ decimalHalf 21 @ ''pt)'' @
      bold_text rPr_Normal @ paragraph_text style_Normal) @
     described_blocks sample_platform [style_Heading1, style_Caption]"
    using size_line_in_report
      [OF thesis_docx_def sample_read(1) xml_texts_nonempty(1) s2 sample_relevant(1) n]
    by (rule conjunct1)
  show ?thesis
    using a [unfolded d] b [unfolded d] s1 s2 h n sample_read(1) xml_texts_nonempty(1)
      sample_relevant(1,2)
    by blast
qed

text \<open>C6 as stated fails: the size 21 is written with the point value 10.5, not with the
  10 of an integer division, and the size \<open>abc\<close> is written as \<open>NaN\<close> twice.\<close>

theorem size_not_integer_division_counterexample:
  "first (getElementsByTagName rPr_Normal ''w:sz'') = Some sz_21 \<and>
   getAttribute sz_21 ''w:val'' = Some ''21'' \<and>
   sublist (size_label @ ''21'' @ that_is @ ''10.5pt)'')
     (parseDocxStyles sample_platform thesis_docx) \<and>
   \<not> sublist (size_label @ ''21'' @ that_is @ ''10pt)'')
       (parseDocxStyles sample_platform thesis_docx) \<and>
   first (getElementsByTagName rPr_Unnamed ''w:sz'') = Some sz_abc \<and>
   getAttribute sz_abc ''w:val'' = Some ''abc'' \<and>
   parseDocxStyles second_platform unnamed_docx =
     report_header @ style_label @ ''null (ID: Heading5)]'' @
     size_label @ ''NaN'' @ that_is @ ''NaNpt)''"
proof -
  have "first (getElementsByTagName rPr_Normal ''w:sz'') = Some sz_21"
    "getAttribute sz_21 ''w:val'' = Some ''21''"
    "sublist (size_label @ ''21'' @ that_is @ ''10.5pt)'')
       (parseDocxStyles sample_platform thesis_docx)"
    "\<not> sublist (size_label @ ''21'' @ that_is @ ''10pt)'')
       (parseDocxStyles sample_platform thesis_docx)"
    "first (getElementsByTagName rPr_Unnamed ''w:sz'') = Some sz_abc"
    "getAttribute sz_abc ''w:val'' = Some ''abc''"
    by code_simp+
  then show ?thesis
    using unnamed_report by simp
qed

subsection \<open>The bold line\<close>

lemma concat_lines_hd:
  assumes "\<forall>l\<in>set ls. l = [] \<or> hd l = c"
  shows "concat ls = [] \<or> hd (concat ls) = c"
  using assms by (induction ls) (auto simp: hd_append)

lemma lines_sublist:
  assumes "\<forall>l\<in>set ls. l = [] \<or> (hd l = c \<and> c \<notin> set (tl l))"
    and "c \<notin> set wb" and "sublist (c # wb) (concat ls)"
  shows "\<exists>l\<in>set ls. prefix (c # wb) l"
  using assms(1,3)
proof (induction ls)
  case Nil
  then show ?case by simp
next
  case (Cons l ls)
  let ?w = "c # wb" and ?rest = "concat ls"
  have shape: "l = [] \<or> (hd l = c \<and> c \<notin> set (tl l))"
    and rest: "\<forall>l\<in>set ls. l = [] \<or> (hd l = c \<and> c \<notin> set (tl l))"
    using Cons.prems(1) by simp_all
  have rest_hd: "?rest = [] \<or> hd ?rest = c"
    using rest by (intro concat_lines_hd) auto
  have in_line: "prefix ?w l" if "sublist ?w l"
  proof -
    from that have "l \<noteq> []" by auto
    with shape obtain body where l: "l = c # body" and body: "c \<notin> set body"
      by (cases l) auto
    from that l have "prefix ?w (c # body) \<or> sublist ?w body"
      by (simp add: sublist_Cons_right)
    moreover have "\<not> sublist ?w body"
      using body set_mono_sublist [of ?w body] by auto
    ultimately show ?thesis using l by simp
  qed
  from Cons.prems(2) have "sublist ?w (l @ ?rest)" by simp
  then consider (line) "sublist ?w l" | (rest) "sublist ?w ?rest"
    | (both) xs1 xs2 where "?w = xs1 @ xs2" "suffix xs1 l" "prefix xs2 ?rest"
    by (auto simp: sublist_append)
  then show ?case
  proof cases
    case line
    then show ?thesis using in_line by simp
  next
    case rest
    then show ?thesis using Cons.IH [OF \<open>\<forall>l\<in>set ls. l = [] \<or> (hd l = c \<and> c \<notin> set (tl l))\<close>]
      by auto
  next
    case both
    show ?thesis
    proof (cases "xs1 = [] \<or> xs2 = []")
      case True
      then have "sublist ?w ?rest \<or> sublist ?w l"
        using both by auto
      then show ?thesis
        using in_line Cons.IH [OF rest] by auto
    next
      case False
      then obtain xs1' where x1: "xs1 = c # xs1'" and wb: "wb = xs1' @ xs2"
        using both(1) by (cases xs1) auto
      from both(3) obtain zs where "?rest = xs2 @ zs"
        by (auto simp: prefix_def)
      with False have "?rest \<noteq> []" "hd ?rest = hd xs2"
        by (simp_all del: concat_eq_Nil_conv)
      with rest_hd have "hd xs2 = c" by (simp del: concat_eq_Nil_conv)
      with False have "c \<in> set xs2" by (cases xs2) auto
      with wb assms(2) show ?thesis by simp
    qed
  qed
qed

lemma bold_line_shape: "bold_line = CHR 0x0A # tl bold_line" "CHR 0x0A \<notin> set (tl bold_line)"
  by (simp_all add: bold_line_def)

lemma line_heads:
  "hd (style_line style) = CHR 0x0A"
  "font_line rPr = [] \<or> hd (font_line rPr) = CHR 0x0A"
  "size_line P rPr = [] \<or> hd (size_line P rPr) = CHR 0x0A"
  "bold_text rPr = [] \<or> hd (bold_text rPr) = CHR 0x0A"
  "spacing_line pPr = [] \<or> hd (spacing_line pPr) = CHR 0x0A"
  "jc_line pPr = [] \<or> hd (jc_line pPr) = CHR 0x0A"
  by (simp_all add: style_line_def font_line_def size_line_def bold_text_def spacing_line_def
      jc_line_def style_label_def font_label_def size_label_def bold_line_def
      spacing_label_def jc_label_def split: option.splits)

lemma block_lines_heads:
  assumes "l \<in> set (block_lines P style)"
  shows "l = [] \<or> hd l = CHR 0x0A"
proof -
  from assms consider "l = style_line style"
    | rPr where "l = font_line rPr" | rPr where "l = size_line P rPr"
    | rPr where "l = bold_text rPr"
    | pPr where "l = spacing_line pPr" | pPr where "l = jc_line pPr"
    by (auto simp: block_lines_def split: option.splits)
  then show ?thesis
  proof cases
    case 1
    then show ?thesis using line_heads(1) by simp
  next
    case 2
    then show ?thesis using line_heads(2) by simp
  next
    case 3
    then show ?thesis using line_heads(3) by simp
  next
    case 4
    then show ?thesis using line_heads(4) by simp
  next
    case 5
    then show ?thesis using line_heads(5) by simp
  next
    case 6
    then show ?thesis using line_heads(6) by simp
  qed
qed

lemma not_bold_prefix:
  "\<not> prefix bold_line (style_line style)"
  "\<not> prefix bold_line (font_line rPr)"
  "\<not> prefix bold_line (size_line P rPr)"
  "\<not> prefix bold_line (spacing_line pPr)"
  "\<not> prefix bold_line (jc_line pPr)"
  by (simp_all add: style_line_def font_line_def size_line_def spacing_line_def
      jc_line_def style_label_def font_label_def size_label_def bold_line_def
      spacing_label_def jc_label_def split: option.splits)

lemma bold_prefix_of_line:
  assumes "first (getElementsByTagName style ''w:rPr'') = Some rPr"
    and "first (getElementsByTagName rPr ''w:b'') = Some b"
  shows "(\<exists>l\<in>set (block_lines P style). prefix bold_line l) \<longleftrightarrow>
         getAttribute b ''w:val'' \<noteq> Some ''0''"
proof -
  have "bold_line \<noteq> []" by (simp add: bold_line_def)
  then show ?thesis
    using assms not_bold_prefix
    by (auto simp: block_lines_def bold_text_def split: option.splits)
qed

text \<open>
  C2, as the code has it. Let the styles part be read and let \<open>style\<close> be one of its style
  elements, relevant, whose first run-properties element holds a bold element. In the
  returned report the block of \<open>style\<close> is its header line, font line and size line,
  then the bold line exactly when the value attribute of the (first) bold element is
  not the text \<open>0\<close>, then the paragraph lines. When the value is not \<open>0\<close> (so also when
  there is none) the returned text contains the bold line. When no line of the block
  holds a line feed after its first character, the text of the block contains the bold
  line if and only if the value is not \<open>0\<close>.
\<close>

theorem bold_line_in_report:
  assumes "file = Inr z" and "zip_file z ''word/styles.xml'' = Some (Inr t)" and "t \<noteq> []"
    and "documentElementsByTagName (parseFromString P t) ''w:style'' = before @ style # after"
    and "relevant style"
    and "first (getElementsByTagName style ''w:rPr'') = Some rPr"
    and "first (getElementsByTagName rPr ''w:b'') = Some b"
  shows "parseDocxStyles P file =
           report_header @ described_blocks P before @ described_block P style @
           described_blocks P after \<and>
         described_block P style =
           style_line style @ font_line rPr @ size_line P rPr @
           (if getAttribute b ''w:val'' = Some ''0'' then [] else bold_line) @
           paragraph_text style \<and>
         (getAttribute b ''w:val'' \<noteq> Some ''0'' \<longrightarrow>
            sublist bold_line (parseDocxStyles P file)) \<and>
         ((\<forall>l\<in>set (block_lines P style). CHR 0x0A \<notin> set (tl l)) \<longrightarrow>
            (sublist bold_line (described_block P style) \<longleftrightarrow>
             getAttribute b ''w:val'' \<noteq> Some ''0''))"
proof -
  have r: "parseDocxStyles P file =
           report_header @ described_blocks P before @ described_block P style @
           described_blocks P after"
    using report_at_style [OF assms(1-4)] assms(5) by simp
  have d: "described_block P style =
           style_line style @ font_line rPr @ size_line P rPr @
           (if getAttribute b ''w:val'' = Some ''0'' then [] else bold_line) @
           paragraph_text style"
    using assms(6,7) by (simp add: described_block_def run_text_def bold_text_def)
  have pos: "sublist bold_line (parseDocxStyles P file)"
    if "getAttribute b ''w:val'' \<noteq> Some ''0''"
    by (rule sublist_middle
        [of _ "report_header @ described_blocks P before @ style_line style @
               font_line rPr @ size_line P rPr" _
            "paragraph_text style @ described_blocks P after"])
       (simp add: r d that)
  have iff: "sublist bold_line (described_block P style) \<longleftrightarrow>
             getAttribute b ''w:val'' \<noteq> Some ''0''"
    if plain: "\<forall>l\<in>set (block_lines P style). CHR 0x0A \<notin> set (tl l)"
  proof
    assume "sublist bold_line (described_block P style)"
    then have "sublist (CHR 0x0A # tl bold_line) (concat (block_lines P style))"
      using bold_line_shape(1) by (simp add: block_lines_text)
    moreover have "\<forall>l\<in>set (block_lines P style).
        l = [] \<or> (hd l = CHR 0x0A \<and> CHR 0x0A \<notin> set (tl l))"
      using plain block_lines_heads by blast
    ultimately have "\<exists>l\<in>set (block_lines P style). prefix (CHR 0x0A # tl bold_line) l"
      using bold_line_shape(2) by (intro lines_sublist)
    then show "getAttribute b ''w:val'' \<noteq> Some ''0''"
      using bold_prefix_of_line [OF assms(6,7), of P] bold_line_shape(1) by simp
  next
    assume "getAttribute b ''w:val'' \<noteq> Some ''0''"
    then show "sublist bold_line (described_block P style)"
      by (intro sublist_middle
          [of _ "style_line style @ font_line rPr @ size_line P rPr" _ "paragraph_text style"])
         (simp add: d)
  qed
  show ?thesis
    using r d pos iff by blast
qed

text \<open>Heading1 of the sample thesis has a bold element with no value; Heading2 of the
  sample draft has one with the value \<open>0\<close>.\<close>

theorem bold_line_in_report_witness:
  "zip_file [''word/document.xml'' \<mapsto> Inr ''<w:document/>'',
             ''word/styles.xml'' \<mapsto> Inr thesis_styles_xml] ''word/styles.xml''
     = Some (Inr thesis_styles_xml) \<and>
   thesis_styles_xml \<noteq> [] \<and>
   documentElementsByTagName (parseFromString sample_platform thesis_styles_xml) ''w:style''
     = [style_Normal] @ style_Heading1 # [style_Caption] \<and>
   relevant style_Heading1 \<and>
   first (getElementsByTagName style_Heading1 ''w:rPr'') = Some rPr_Heading1 \<and>
   first (getElementsByTagName rPr_Heading1 ''w:b'') = Some bold_on \<and>
   getAttribute bold_on ''w:val'' = None \<and>
   described_block sample_platform style_Heading1 =
     style_line style_Heading1 @ font_line rPr_Heading1 @
     size_line sample_platform rPr_Heading1 @ bold_line @ paragraph_text style_Heading1 \<and>
   sublist bold_line (parseDocxStyles sample_platform thesis_docx) \<and>
   zip_file [''word/styles.xml'' \<mapsto> Inr draft_styles_xml] ''word/styles.xml''
     = Some (Inr draft_styles_xml) \<and>
   draft_styles_xml \<noteq> [] \<and>
   documentElementsByTagName (parseFromString second_platform draft_styles_xml) ''w:style''
     = [] @ style_Heading2 # [style_Heading3] \<and>
   relevant style_Heading2 \<and>
   first (getElementsByTagName style_Heading2 ''w:rPr'') = Some rPr_Heading2 \<and>
   first (getElementsByTagName rPr_Heading2 ''w:b'') = Some bold_off \<and>
   getAttribute bold_off ''w:val'' = Some ''0'' \<and>
   list_all (\<lambda>l. CHR 0x0A \<notin> set (tl l)) (block_lines second_platform style_Heading2) \<and>
   described_block second_platform style_Heading2 =
     style_line style_Heading2 @ font_line rPr_Heading2 @
     size_line second_platform rPr_Heading2 @ paragraph_text style_Heading2 \<and>
   \<not> sublist bold_line (described_block second_platform style_Heading2) \<and>
   \<not> sublist bold_line (parseDocxStyles second_platform draft_docx)"
proof -
  have s1: "documentElementsByTagName (parseFromString sample_platform thesis_styles_xml)
      ''w:style'' = [style_Normal] @ style_Heading1 # [style_Caption]"
    by (simp add: parse_samples sample_styles)
  have s2: "documentElementsByTagName (parseFromString second_platform draft_styles_xml)
      ''w:style'' = [] @ style_Heading2 # [style_Heading3]"
    by (simp add: parse_second second_styles)
  have on: "first (getElementsByTagName style_Heading1 ''w:rPr'') = Some rPr_Heading1"
    "first (getElementsByTagName rPr_Heading1 ''w:b'') = Some bold_on"
    and on_val: "getAttribute bold_on ''w:val'' = None"
    by code_simp+
  have off: "first (getElementsByTagName style_Heading2 ''w:rPr'') = Some rPr_Heading2"
    "first (getElementsByTagName rPr_Heading2 ''w:b'') = Some bold_off"
    and off_val: "getAttribute bold_off ''w:val'' = Some ''0''"
    by code_simp+
  have plain: "list_all (\<lambda>l. CHR 0x0A \<notin> set (tl l)) (block_lines second_platform style_Heading2)"
    by code_simp
  have whole: "\<not> sublist bold_line (parseDocxStyles second_platform draft_docx)"
    by code_simp
  note a = bold_line_in_report
    [OF thesis_docx_def sample_read(1) xml_texts_nonempty(1) s1 sample_relevant(2) on]
  note b = bold_line_in_report
    [OF draft_docx_def sample_read(2) second_texts_nonempty(1) s2 sample_relevant(3) off]
  from a have a2: "described_block sample_platform style_Heading1 =
      style_line style_Heading1 @ font_line rPr_Heading1 @
      size_line sample_platform rPr_Heading1 @
      (if getAttribute bold_on ''w:val'' = Some ''0'' then [] else bold_line) @
      paragraph_text style_Heading1"
    and a3: "getAttribute bold_on ''w:val'' \<noteq> Some ''0'' \<longrightarrow>
      sublist bold_line (parseDocxStyles sample_platform thesis_docx)"
    by blast+
  from b have b2: "described_block second_platform style_Heading2 =
      style_line style_Heading2 @ font_line rPr_Heading2 @
      size_line second_platform rPr_Heading2 @
      (if getAttribute bold_off ''w:val'' = Some ''0'' then [] else bold_line) @
      paragraph_text style_Heading2"
    and b4: "(\<forall>l\<in>set (block_lines second_platform style_Heading2).
        CHR 0x0A \<notin> set (tl l)) \<longrightarrow>
      (sublist bold_line (described_block second_platform style_Heading2) \<longleftrightarrow>
       getAttribute bold_off ''w:val'' \<noteq> Some ''0'')"
    by blast+
  have "described_block sample_platform style_Heading1 =
     style_line style_Heading1 @ font_line rPr_Heading1 @
     size_line sample_platform rPr_Heading1 @ bold_line @ paragraph_text style_Heading1"
    using a2 on_val by simp
  moreover have "sublist bold_line (parseDocxStyles sample_platform thesis_docx)"
    using a3 on_val by simp
  moreover have "described_block second_platform style_Heading2 =
     style_line style_Heading2 @ font_line rPr_Heading2 @
     size_line second_platform rPr_Heading2 @ paragraph_text style_Heading2"
    using b2 off_val by simp
  moreover have "\<not> sublist bold_line (described_block second_platform style_Heading2)"
    using b4 off_val plain by (simp add: list_all_iff)
  ultimately show ?thesis
    using s1 s2 on on_val off off_val plain whole sample_read(1,2) xml_texts_nonempty(1)
      second_texts_nonempty(1) sample_relevant(2,3)
    by blast
qed

text \<open>C2 as stated fails: with the bold element at \<open>0\<close>, the block still contains the
  text of the bold line when an attribute value written into it holds that text.\<close>

theorem echoed_bold_line_counterexample:
  "documentElementsByTagName (parseFromString second_platform echo_styles_xml) ''w:style''
     = [style_Echo] \<and>
   relevant style_Echo \<and>
   first (getElementsByTagName style_Echo ''w:rPr'') = Some rPr_Echo \<and>
   first (getElementsByTagName rPr_Echo ''w:b'') = Some bold_off \<and>
   getAttribute bold_off ''w:val'' = Some ''0'' \<and>
   parseDocxStyles second_platform echo_docx =
     report_header @ style_label @ ''heading 4 (ID: Heading4)]'' @
     jc_label @ ''center'' @ bold_line \<and>
   sublist bold_line (parseDocxStyles second_platform echo_docx)"
proof -
  have "documentElementsByTagName (parseFromString second_platform echo_styles_xml)
      ''w:style'' = [style_Echo]"
    by (simp add: parse_second second_styles)
  moreover have "first (getElementsByTagName style_Echo ''w:rPr'') = Some rPr_Echo"
    "first (getElementsByTagName rPr_Echo ''w:b'') = Some bold_off"
    "getAttribute bold_off ''w:val'' = Some ''0''"
    "sublist bold_line (parseDocxStyles second_platform echo_docx)"
    by code_simp+
  ultimately show ?thesis
    using echo_report sample_relevant(5) by simp
qed

subsection \<open>The entries of the package\<close>

lemma dom_filed:
  "dom (fold (\<lambda>entry z. z(resolve (fst entry) \<mapsto> snd entry)) entries z0) =
   dom z0 \<union> resolve ` fst ` set entries"
  by (induction entries arbitrary: z0) auto

text \<open>
  C4, as the code has it. A ZIP package none of whose file entries has a name that
  JSZip rewrites to \<open>word/styles.xml\<close> gives exactly the "part not found" message; the
  body of \<open>try\<close> returns it, nothing is thrown.
\<close>

theorem no_styles_entry:
  assumes "''word/styles.xml'' \<notin> resolve ` fst ` set entries"
  shows "try_block P (loadAsync (Zip entries)) = Inr not_found_message \<and>
         parseDocxStyles P (loadAsync (Zip entries)) = not_found_message"
proof -
  let ?z = "fold (\<lambda>entry z. z(resolve (fst entry) \<mapsto> snd entry)) entries Map.empty"
  have "''word/styles.xml'' \<notin> dom ?z"
    using assms by (simp add: dom_filed)
  then show ?thesis
    using missing_in_dictionary [of "loadAsync (Zip entries)" ?z P] by simp
qed

lemma resolved_names:
  "resolve ''[Content_Types].xml'' = ''[Content_Types].xml''"
  "resolve ''word/document.xml'' = ''word/document.xml''"
  "resolve ''word/./styles.xml'' = ''word/styles.xml''"
  by code_simp+

text \<open>The sample package has a content types part and a document part only.\<close>

theorem no_styles_entry_witness:
  "plain_package =
     Zip [(''[Content_Types].xml'', Inr ''<Types/>''),
          (''word/document.xml'', Inr ''<w:document/>'')] \<and>
   ''word/styles.xml'' \<notin>
     resolve ` fst ` set [(''[Content_Types].xml'', Inr ''<Types/>''),
                          (''word/document.xml'', Inr ''<w:document/>'')] \<and>
   try_block sample_platform (loadAsync plain_package) = Inr not_found_message \<and>
   parseDocxStyles sample_platform (loadAsync plain_package) = not_found_message"
  using no_styles_entry [of "[(''[Content_Types].xml'', Inr ''<Types/>''),
        (''word/document.xml'', Inr ''<w:document/>'')]" sample_platform]
  by (simp add: plain_package_def resolved_names)

text \<open>C4 as stated fails: a package with no entry at the path \<open>word/styles.xml\<close> itself,
  whose styles part is named \<open>word/./styles.xml\<close>, is read like the sample thesis.\<close>

theorem dotted_entry_counterexample:
  "dotted_package =
     Zip [(''word/document.xml'', Inr ''<w:document/>''),
          (''word/./styles.xml'', Inr thesis_styles_xml)] \<and>
   ''word/styles.xml'' \<notin>
     fst ` set [(''word/document.xml'', Inr ''<w:document/>''),
                (''word/./styles.xml'', Inr thesis_styles_xml)] \<and>
   loadAsync dotted_package = thesis_docx \<and>
   prefix report_header (parseDocxStyles sample_platform (loadAsync dotted_package)) \<and>
   parseDocxStyles sample_platform (loadAsync dotted_package) \<noteq> not_found_message"
proof -
  have l: "loadAsync dotted_package = thesis_docx"
    by (simp add: dotted_package_def thesis_docx_def resolved_names)
  have p: "prefix report_header (parseDocxStyles sample_platform thesis_docx)"
    using report_of_text [OF thesis_docx_def sample_read(1) xml_texts_nonempty(1),
        of sample_platform]
    by simp
  then have "parseDocxStyles sample_platform thesis_docx \<noteq> not_found_message"
    using header_not_prefix(1) by auto
  with l p show ?thesis
    by (simp add: dotted_package_def)
qed

end
